theory Spec2Isabelle
  imports Complex_Main
begin

section \<open>Values\<close>

text \<open>
  JavaScript values as far as the SDK handles them: primitives, functions (known by an
  identity only), arrays and plain objects. A plain object is the list of the data
  properties that a read finds on it, in insertion order. A finite number is the rational
  it stands for, and NaN is a value of its own; the infinities and accessor properties
  are outside the model.
\<close>

datatype jsval =
    JUndefined
  | JNull
  | JBool bool
  | JNum rat
  | JNaN
  | JStr string
  | JFun nat
  | JArr "jsval list"
  | JObj "(string \<times> jsval) list"

type_synonym jsobject = "(string \<times> jsval) list"

text \<open>\<open>x ?? null\<close> on an optional field: an absent value becomes an explicit null.\<close>

definition or_null :: "('a \<Rightarrow> jsval) \<Rightarrow> 'a option \<Rightarrow> jsval" where
  "or_null conv x = (case x of None \<Rightarrow> JNull | Some v \<Rightarrow> conv v)"

definition JInt :: "int \<Rightarrow> jsval" where
  "JInt n = JNum (of_int n)"

text \<open>
  The result of arithmetic: a finite number or NaN. Arithmetic on doubles rounds: \<open>rnd\<close>
  maps the exact value of a decimal literal or of the result of an operation to the
  double that the platform yields for it. It is a parameter of what follows, as the
  rounding is the platform's; integers as small as the ones written in the source are
  doubles themselves. An operation with undefined as an operand yields NaN.
\<close>

datatype number = Num rat | NaN

fun JNumber :: "number \<Rightarrow> jsval" where
  "JNumber (Num r) = JNum r"
| "JNumber NaN = JNaN"

section \<open>Tracing types\<close>

datatype SpanType = generation | tool | retrieval | custom

datatype SpanStatus = span_ok | span_error

datatype TraceStatus = running | completed | trace_error

fun SpanType_str :: "SpanType \<Rightarrow> string" where
  "SpanType_str generation = ''generation''"
| "SpanType_str tool = ''tool''"
| "SpanType_str retrieval = ''retrieval''"
| "SpanType_str custom = ''custom''"

fun SpanStatus_str :: "SpanStatus \<Rightarrow> string" where
  "SpanStatus_str span_ok = ''ok''"
| "SpanStatus_str span_error = ''error''"

fun TraceStatus_str :: "TraceStatus \<Rightarrow> string" where
  "TraceStatus_str running = ''running''"
| "TraceStatus_str completed = ''completed''"
| "TraceStatus_str trace_error = ''error''"

record TraceOptions =
  name :: string
  sessionId :: "string option"
  userId :: "string option"
  input :: "string option"
  metadata :: "jsobject option"
  promptName :: "string option"
  promptVersion :: "string option"

record SpanOptions =
  spanType :: SpanType
  name :: "string option"
  model :: "string option"
  provider :: "string option"
  input :: "string option"
  metadata :: "jsobject option"

record SpanEndOptions =
  inputTokens :: "rat option"
  outputTokens :: "rat option"
  cost :: "number option"
  status :: SpanStatus
  errorMessage :: "string option"
  "output" :: "string option"
  timeToFirstTokenMs :: "rat option"

record TraceEndOptions =
  status :: TraceStatus
  "output" :: "string option"

section \<open>Span\<close>

text \<open>
  The identifier (\<open>crypto.randomUUID()\<close>) and the clock (\<open>Date.now()\<close>, in milliseconds)
  are read from the environment: every operation that reads one takes it as an argument.
\<close>

record Span =
  id' :: string
  parentSpanId :: "string option"
  spanType :: SpanType
  name :: string
  model :: "string option"
  provider :: "string option"
  startedAt :: int
  input :: "string option"
  metadata :: "jsobject option"
  inputTokens :: "rat option"
  outputTokens :: "rat option"
  cost :: "number option"
  latencyMs :: "int option"
  timeToFirstTokenMs :: "rat option"
  status :: "SpanStatus option"
  errorMessage :: "string option"
  "output" :: "string option"

text \<open>
  The constructor. \<open>parent\<close> is \<open>opts.parentSpanId\<close>, which \<open>?? null\<close> turns into null
  when absent: null and absent are both \<open>None\<close> here.
\<close>

definition Span_new :: "string \<Rightarrow> int \<Rightarrow> SpanOptions \<Rightarrow> string option \<Rightarrow> Span" where
  "Span_new uuid now opts parent =
     \<lparr> Span.id' = uuid,
       parentSpanId = parent,
       spanType = SpanOptions.spanType opts,
       name = (case SpanOptions.name opts of
                 None \<Rightarrow> SpanType_str (SpanOptions.spanType opts)
               | Some n \<Rightarrow> n),
       model = SpanOptions.model opts,
       provider = SpanOptions.provider opts,
       startedAt = now,
       input = SpanOptions.input opts,
       metadata = SpanOptions.metadata opts,
       inputTokens = None,
       outputTokens = None,
       cost = None,
       latencyMs = None,
       timeToFirstTokenMs = None,
       status = None,
       errorMessage = None,
       output = None \<rparr>"

definition Span_end :: "int \<Rightarrow> SpanEndOptions \<Rightarrow> Span \<Rightarrow> Span" where
  "Span_end now opts s =
     s\<lparr> Span.latencyMs := Some (now - Span.startedAt s),
        Span.status := Some (SpanEndOptions.status opts),
        Span.inputTokens := SpanEndOptions.inputTokens opts,
        Span.outputTokens := SpanEndOptions.outputTokens opts,
        Span.cost := SpanEndOptions.cost opts,
        Span.errorMessage := SpanEndOptions.errorMessage opts,
        Span.output := SpanEndOptions.output opts,
        Span.timeToFirstTokenMs := SpanEndOptions.timeToFirstTokenMs opts \<rparr>"

definition Span_toJSON :: "Span \<Rightarrow> jsobject" where
  "Span_toJSON s =
     [ (''id'', JStr (Span.id' s)),
       (''parent_span_id'', or_null JStr (Span.parentSpanId s)),
       (''span_type'', JStr (SpanType_str (Span.spanType s))),
       (''name'', JStr (Span.name s)),
       (''model'', or_null JStr (Span.model s)),
       (''provider'', or_null JStr (Span.provider s)),
       (''input'', or_null JStr (Span.input s)),
       (''output'', or_null JStr (Span.output s)),
       (''metadata'', or_null JObj (Span.metadata s)),
       (''started_at'', JInt (Span.startedAt s)),
       (''input_tokens'', or_null JNum (Span.inputTokens s)),
       (''output_tokens'', or_null JNum (Span.outputTokens s)),
       (''cost'', or_null JNumber (Span.cost s)),
       (''latency_ms'', or_null JInt (Span.latencyMs s)),
       (''time_to_first_token_ms'', or_null JNum (Span.timeToFirstTokenMs s)),
       (''status'', or_null (\<lambda>st. JStr (SpanStatus_str st)) (Span.status s)),
       (''error_message'', or_null JStr (Span.errorMessage s)) ]"

section \<open>Client state\<close>

text \<open>
  Per-token prices of a model, and the built-in table: the literals of the source, each
  price the rounded quotient of a rounded decimal and 1000000.
\<close>

record rates =
  rate_input :: rat
  rate_output :: rat

definition per_million :: "(rat \<Rightarrow> rat) \<Rightarrow> rat \<Rightarrow> rat" where
  "per_million rnd x = rnd (rnd x / 1000000)"

definition MODEL_COSTS :: "(rat \<Rightarrow> rat) \<Rightarrow> string \<rightharpoonup> rates" where
  "MODEL_COSTS rnd = map_of
     [ (''gpt-4o'', \<lparr>rate_input = per_million rnd 2.50, rate_output = per_million rnd 10.00\<rparr>),
       (''gpt-4o-mini'',
          \<lparr>rate_input = per_million rnd 0.15, rate_output = per_million rnd 0.60\<rparr>),
       (''gpt-4-turbo'',
          \<lparr>rate_input = per_million rnd 10.00, rate_output = per_million rnd 30.00\<rparr>),
       (''claude-sonnet-4-5-20250929'',
          \<lparr>rate_input = per_million rnd 3.00, rate_output = per_million rnd 15.00\<rparr>),
       (''claude-haiku-4-5-20251001'',
          \<lparr>rate_input = per_million rnd 0.80, rate_output = per_million rnd 4.00\<rparr>),
       (''MiniMax-M1'', \<lparr>rate_input = per_million rnd 0.40, rate_output = per_million rnd 2.20\<rparr>),
       (''MiniMax-Text-01'',
          \<lparr>rate_input = per_million rnd 0.20, rate_output = per_million rnd 1.10\<rparr>),
       (''kimi-k2'', \<lparr>rate_input = per_million rnd 0.60, rate_output = per_million rnd 2.50\<rparr>),
       (''moonshot-v1-8k'',
          \<lparr>rate_input = per_million rnd 0.20, rate_output = per_million rnd 2.00\<rparr>) ]"

text \<open>
  The tables of the source (\<open>MODEL_COSTS\<close>, \<open>_modelCosts\<close>, \<open>PROVIDER_MAP\<close>) are plain
  objects, and \<open>table[key]\<close> on a plain object finds, after the object's own keys, the
  members that it inherits from \<open>Object.prototype\<close>: eleven functions, and under
  \<open>__proto__\<close> the prototype itself. What such a read finds is an entry of the table, an
  inherited member (an object or a function: truthy, and with no \<open>input\<close> or \<open>output\<close>),
  an inherited number, or nothing (undefined).
\<close>

definition Object_prototype_members :: "string list" where
  "Object_prototype_members =
     [ ''constructor'', ''__defineGetter__'', ''__defineSetter__'', ''hasOwnProperty'',
       ''__lookupGetter__'', ''__lookupSetter__'', ''isPrototypeOf'', ''propertyIsEnumerable'',
       ''toString'', ''valueOf'', ''__proto__'', ''toLocaleString'' ]"

datatype found = Absent | Entry rates | Member | Number rat

definition Object_prototype_get :: "string \<Rightarrow> found" where
  "Object_prototype_get k = (if k \<in> set Object_prototype_members then Member else Absent)"

fun found_truthy :: "found \<Rightarrow> bool" where
  "found_truthy Absent = False"
| "found_truthy (Entry r) = True"
| "found_truthy Member = True"
| "found_truthy (Number n) = (n \<noteq> 0)"

definition MODEL_COSTS_get :: "(rat \<Rightarrow> rat) \<Rightarrow> string \<Rightarrow> found" where
  "MODEL_COSTS_get rnd k =
     (case MODEL_COSTS rnd k of Some r \<Rightarrow> Entry r | None \<Rightarrow> Object_prototype_get k)"

text \<open>
  The client: the part of its configuration that the operations below read, the two
  pending buffers and the per-instance price overrides \<open>_modelCosts\<close>: the own keys of that
  object, and the object that an assignment to its \<open>__proto__\<close> has made its prototype, if
  any (\<open>None\<close>: it is \<open>Object.prototype\<close>, as for the \<open>{}\<close> that the client starts with).
\<close>

record BloopClient =
  source :: string
  environment :: string
  release :: string
  maxBufferSize :: "rat option"
  buffer :: "jsobject list"
  traceBuffer :: "jsobject list"
  modelCosts :: "string \<rightharpoonup> rates"
  modelCostsProto :: "rates option"

definition pushTrace :: "jsobject \<Rightarrow> BloopClient \<Rightarrow> BloopClient" where
  "pushTrace payload c = c\<lparr>traceBuffer := traceBuffer c @ [payload]\<rparr>"

text \<open>
  \<open>this._modelCosts[model] = costs\<close> makes or replaces an own key, but for the key
  \<open>__proto__\<close>, where it makes \<open>costs\<close> the prototype of the object. A read of
  \<open>this._modelCosts[k]\<close> finds an own key first; then, when \<open>costs\<close> is the prototype, that
  object under \<open>__proto__\<close> and its numbers under \<open>input\<close> and \<open>output\<close>; then the members
  of \<open>Object.prototype\<close>.
\<close>

definition setModelCosts :: "string \<Rightarrow> rates \<Rightarrow> BloopClient \<Rightarrow> BloopClient" where
  "setModelCosts m costs c =
     (if m = ''__proto__'' then c\<lparr>modelCostsProto := Some costs\<rparr>
      else c\<lparr>modelCosts := (modelCosts c)(m \<mapsto> costs)\<rparr>)"

definition modelCosts_get :: "BloopClient \<Rightarrow> string \<Rightarrow> found" where
  "modelCosts_get c k =
     (case modelCosts c k of
        Some r \<Rightarrow> Entry r
      | None \<Rightarrow>
          (case modelCostsProto c of
             None \<Rightarrow> Object_prototype_get k
           | Some proto \<Rightarrow>
               if k = ''__proto__'' then Entry proto
               else if k = ''input'' then Number (rate_input proto)
               else if k = ''output'' then Number (rate_output proto)
               else Object_prototype_get k))"

section \<open>Trace\<close>

record Trace =
  id' :: string
  name :: string
  sessionId :: "string option"
  userId :: "string option"
  status :: TraceStatus
  input :: "string option"
  "output" :: "string option"
  metadata :: "jsobject option"
  promptName :: "string option"
  promptVersion :: "string option"
  startedAt :: int
  endedAt :: "int option"
  spans :: "Span list"

definition Trace_new :: "string \<Rightarrow> int \<Rightarrow> TraceOptions \<Rightarrow> Trace" where
  "Trace_new uuid now opts =
     \<lparr> Trace.id' = uuid,
       name = TraceOptions.name opts,
       sessionId = TraceOptions.sessionId opts,
       userId = TraceOptions.userId opts,
       status = running,
       input = TraceOptions.input opts,
       output = None,
       metadata = TraceOptions.metadata opts,
       promptName = TraceOptions.promptName opts,
       promptVersion = TraceOptions.promptVersion opts,
       startedAt = now,
       endedAt = None,
       spans = [] \<rparr>"

text \<open>
  \<open>startSpan\<close> pushes the new span and returns it. The trace holds its spans by value
  here; the caller's reference to the span is its position in the sequence, and
  \<open>Trace_with_span\<close> is a method call on the span through that reference.
\<close>

definition Trace_startSpan :: "string \<Rightarrow> int \<Rightarrow> SpanOptions \<Rightarrow> Trace \<Rightarrow> Span \<times> Trace" where
  "Trace_startSpan uuid now opts t =
     (let span = Span_new uuid now opts None
      in (span, t\<lparr>Trace.spans := Trace.spans t @ [span]\<rparr>))"

definition Trace_with_span :: "nat \<Rightarrow> (Span \<Rightarrow> Span) \<Rightarrow> Trace \<Rightarrow> Trace" where
  "Trace_with_span i f t =
     (if i < length (Trace.spans t)
      then t\<lparr>Trace.spans := (Trace.spans t)[i := f (Trace.spans t ! i)]\<rparr>
      else t)"

definition Trace_toPayload :: "Trace \<Rightarrow> jsobject" where
  "Trace_toPayload t =
     [ (''id'', JStr (Trace.id' t)),
       (''session_id'', or_null JStr (Trace.sessionId t)),
       (''user_id'', or_null JStr (Trace.userId t)),
       (''name'', JStr (Trace.name t)),
       (''status'', JStr (TraceStatus_str (Trace.status t))),
       (''input'', or_null JStr (Trace.input t)),
       (''output'', or_null JStr (Trace.output t)),
       (''metadata'', or_null JObj (Trace.metadata t)),
       (''prompt_name'', or_null JStr (Trace.promptName t)),
       (''prompt_version'', or_null JStr (Trace.promptVersion t)),
       (''started_at'', JInt (Trace.startedAt t)),
       (''ended_at'', or_null JInt (Trace.endedAt t)),
       (''spans'', JArr (map (\<lambda>s. JObj (Span_toJSON s)) (Trace.spans t))) ]"

text \<open>
  \<open>end\<close>: the assignments to the trace (\<open>Trace_ended\<close>), then the payload is pushed to the
  client's trace buffer.
\<close>

definition Trace_ended :: "int \<Rightarrow> TraceEndOptions \<Rightarrow> Trace \<Rightarrow> Trace" where
  "Trace_ended now opts t =
     (let t1 = t\<lparr>Trace.endedAt := Some now, Trace.status := TraceEndOptions.status opts\<rparr>
      in case TraceEndOptions.output opts of
           None \<Rightarrow> t1
         | Some out \<Rightarrow> t1\<lparr>Trace.output := Some out\<rparr>)"

definition Trace_end :: "int \<Rightarrow> TraceEndOptions \<Rightarrow> Trace \<Rightarrow> BloopClient \<Rightarrow> Trace \<times> BloopClient" where
  "Trace_end now opts t c =
     (let t2 = Trace_ended now opts t
      in (t2, pushTrace (Trace_toPayload t2) c))"

definition startTrace :: "string \<Rightarrow> int \<Rightarrow> TraceOptions \<Rightarrow> Trace" where
  "startTrace uuid now opts = Trace_new uuid now opts"

section \<open>Truthiness\<close>

text \<open>
  The empty string and the number 0 are falsy; an absent value (undefined) and null are
  falsy; every object is truthy. \<open>js_truthy\<close> is the test on any value, \<open>a || d\<close> on an
  optional string or number is \<open>str_or\<close> and \<open>num_or\<close>.
\<close>

definition truthy_str :: "string \<Rightarrow> bool" where
  "truthy_str s = (s \<noteq> [])"

definition truthy_num :: "rat \<Rightarrow> bool" where
  "truthy_num n = (n \<noteq> 0)"

fun js_truthy :: "jsval \<Rightarrow> bool" where
  "js_truthy JUndefined = False"
| "js_truthy JNull = False"
| "js_truthy (JBool b) = b"
| "js_truthy (JNum n) = truthy_num n"
| "js_truthy JNaN = False"
| "js_truthy (JStr s) = truthy_str s"
| "js_truthy _ = True"

definition str_or :: "string option \<Rightarrow> string \<Rightarrow> string" where
  "str_or x d = (case x of None \<Rightarrow> d | Some s \<Rightarrow> if truthy_str s then s else d)"

definition num_or :: "rat option \<Rightarrow> rat \<Rightarrow> rat" where
  "num_or x d = (case x of None \<Rightarrow> d | Some n \<Rightarrow> if truthy_num n then n else d)"

section \<open>Error capture\<close>

record ErrorEvent =
  errorType :: string
  message :: string
  route :: "string option"
  stack :: "string option"
  httpStatus :: "rat option"
  requestId :: "string option"
  userIdHash :: "string option"
  metadata :: "jsobject option"

text \<open>\<open>if (event.f) ingestEvent.k = conv(event.f)\<close>: the key is set only for a truthy value.\<close>

definition set_if :: "string \<Rightarrow> ('a \<Rightarrow> bool) \<Rightarrow> ('a \<Rightarrow> jsval) \<Rightarrow> 'a option \<Rightarrow> jsobject" where
  "set_if key truthy conv x =
     (case x of None \<Rightarrow> [] | Some v \<Rightarrow> if truthy v then [(key, conv v)] else [])"

definition ingestEvent :: "int \<Rightarrow> ErrorEvent \<Rightarrow> BloopClient \<Rightarrow> jsobject" where
  "ingestEvent now event c =
     [ (''timestamp'', JInt now),
       (''source'', JStr (source c)),
       (''environment'', JStr (environment c)),
       (''release'', JStr (release c)),
       (''error_type'', JStr (errorType event)),
       (''message'', JStr (ErrorEvent.message event)) ]
     @ set_if ''route_or_procedure'' truthy_str JStr (route event)
     @ set_if ''stack'' truthy_str (\<lambda>s. JStr (take 8192 s)) (stack event)
     @ set_if ''http_status'' truthy_num JNum (httpStatus event)
     @ set_if ''request_id'' truthy_str JStr (requestId event)
     @ set_if ''user_id_hash'' truthy_str JStr (userIdHash event)
     @ set_if ''metadata'' (\<lambda>_. True) JObj (ErrorEvent.metadata event)"

section \<open>Delivery: buffers and flushes\<close>

text \<open>
  Scheduling is cooperative: code runs without interruption from one \<open>await\<close> to the
  next. \<open>_flushErrors\<close> and \<open>_flushTraces\<close> each run in two segments that matter for the
  buffers: from the call to \<open>await this.keyReady\<close>, and from there (\<open>splice(0)\<close>,
  \<open>JSON.stringify\<close>) to the next \<open>await\<close>. The state records how many calls of each are
  suspended at \<open>await this.keyReady\<close> and the arrays that \<open>splice(0)\<close> has handed to the
  sender so far, oldest first. Signing and the HTTP request come after, and never touch
  the buffers again; the import of the key is taken to succeed.
\<close>

record Runtime =
  client :: BloopClient
  errorsAwaitingKey :: nat
  tracesAwaitingKey :: nat
  errorBatches :: "jsobject list list"
  traceBatches :: "jsobject list list"

definition flushErrors_start :: "Runtime \<Rightarrow> Runtime" where
  "flushErrors_start rt =
     (if length (buffer (client rt)) = 0 then rt
      else rt\<lparr>errorsAwaitingKey := Suc (errorsAwaitingKey rt)\<rparr>)"

definition flushErrors_resume :: "Runtime \<Rightarrow> Runtime" where
  "flushErrors_resume rt =
     (case errorsAwaitingKey rt of
        0 \<Rightarrow> rt
      | Suc n \<Rightarrow>
          (let events = buffer (client rt)
           in rt\<lparr> client := (client rt)\<lparr>buffer := []\<rparr>,
                  errorsAwaitingKey := n,
                  errorBatches := errorBatches rt @ [events] \<rparr>))"

definition flushTraces_start :: "Runtime \<Rightarrow> Runtime" where
  "flushTraces_start rt =
     (if length (traceBuffer (client rt)) = 0 then rt
      else rt\<lparr>tracesAwaitingKey := Suc (tracesAwaitingKey rt)\<rparr>)"

definition flushTraces_resume :: "Runtime \<Rightarrow> Runtime" where
  "flushTraces_resume rt =
     (case tracesAwaitingKey rt of
        0 \<Rightarrow> rt
      | Suc n \<Rightarrow>
          (let traces = traceBuffer (client rt)
           in rt\<lparr> client := (client rt)\<lparr>traceBuffer := []\<rparr>,
                  tracesAwaitingKey := n,
                  traceBatches := traceBatches rt @ [traces] \<rparr>))"

text \<open>\<open>flush\<close> up to its \<open>await\<close>: both flushes run to their first suspension.\<close>

definition flush :: "Runtime \<Rightarrow> Runtime" where
  "flush rt = flushTraces_start (flushErrors_start rt)"

definition capture :: "int \<Rightarrow> ErrorEvent \<Rightarrow> Runtime \<Rightarrow> Runtime" where
  "capture now event rt =
     (let c = client rt;
          c' = c\<lparr>buffer := buffer c @ [ingestEvent now event c]\<rparr>;
          rt' = rt\<lparr>client := c'\<rparr>
      in if of_nat (length (buffer c')) \<ge> (case maxBufferSize c' of None \<Rightarrow> 20 | Some m \<Rightarrow> m)
         then flush rt' else rt')"

text \<open>
  What can happen to a client, one uninterrupted segment at a time: an event is captured,
  a trace is ended, \<open>flush\<close> is called (by the timer, by \<open>close\<close> or by the application), or
  a suspended flush gets the key and goes on.
\<close>

datatype event =
    Capture int ErrorEvent
  | EndTrace int TraceEndOptions Trace
  | Flush
  | ResumeFlushErrors
  | ResumeFlushTraces

fun step :: "event \<Rightarrow> Runtime \<Rightarrow> Runtime" where
  "step (Capture now ev) rt = capture now ev rt"
| "step (EndTrace now opts t) rt = rt\<lparr>client := snd (Trace_end now opts t (client rt))\<rparr>"
| "step Flush rt = flush rt"
| "step ResumeFlushErrors rt = flushErrors_resume rt"
| "step ResumeFlushTraces rt = flushTraces_resume rt"

definition run :: "event list \<Rightarrow> Runtime \<Rightarrow> Runtime" where
  "run evs rt = fold step evs rt"

text \<open>The items that a schedule puts into each buffer, in order.\<close>

fun enqueued_errors :: "event list \<Rightarrow> BloopClient \<Rightarrow> jsobject list" where
  "enqueued_errors [] c = []"
| "enqueued_errors (Capture now ev # evs) c = ingestEvent now ev c # enqueued_errors evs c"
| "enqueued_errors (_ # evs) c = enqueued_errors evs c"

fun enqueued_traces :: "event list \<Rightarrow> jsobject list" where
  "enqueued_traces [] = []"
| "enqueued_traces (EndTrace now opts t # evs) =
     Trace_toPayload (Trace_ended now opts t) # enqueued_traces evs"
| "enqueued_traces (_ # evs) = enqueued_traces evs"

section \<open>Thrown values\<close>

text \<open>
  What a callback or a provider call can throw, as far as the handlers look at it: an
  instance of \<open>Error\<close> with its name and message, a string, undefined, null, or a plain
  object that may have a \<open>message\<close>. \<open>thrown_message\<close> is \<open>err?.message\<close>,
  \<open>thrown_String\<close> is \<open>String(err)\<close> (for an \<open>Error\<close>, what \<open>Error.prototype.toString\<close>
  builds from name and message).
\<close>

datatype thrown =
    ErrorInst string string
  | ThrownString string
  | ThrownUndefined
  | ThrownNull
  | ThrownObject "string option"

fun instanceof_Error :: "thrown \<Rightarrow> bool" where
  "instanceof_Error (ErrorInst n m) = True"
| "instanceof_Error _ = False"

fun thrown_message :: "thrown \<Rightarrow> string option" where
  "thrown_message (ErrorInst n m) = Some m"
| "thrown_message (ThrownObject mo) = mo"
| "thrown_message _ = None"

fun thrown_String :: "thrown \<Rightarrow> string" where
  "thrown_String (ErrorInst n m) =
     (if n = [] then m else if m = [] then n else n @ '': '' @ m)"
| "thrown_String (ThrownString s) = s"
| "thrown_String ThrownUndefined = ''undefined''"
| "thrown_String ThrownNull = ''null''"
| "thrown_String (ThrownObject mo) = ''[object Object]''"

section \<open>The environment of one traced call\<close>

text \<open>
  The identifiers and clock readings that one traced call takes from the environment, in
  the order the code asks for them, \<open>JSON.stringify\<close>, and the rounding of doubles.
\<close>

record call_env =
  trace_uuid :: string
  span_uuid :: string
  now_trace_start :: int
  now_span_start :: int
  now_span_end :: int
  now_trace_end :: int
  stringify :: "jsval \<Rightarrow> string"
  round_double :: "rat \<Rightarrow> rat"

section \<open>traceGeneration\<close>

record TraceGenerationOptions =
  name :: string
  model :: "string option"
  provider :: "string option"
  input :: "string option"
  sessionId :: "string option"
  userId :: "string option"
  metadata :: "jsobject option"

text \<open>
  The callback gets the span and may do to it what it likes; it is a function from the
  span to the span as the callback leaves it and to what the promise settles to: \<open>Inr\<close> the
  value, \<open>Inl\<close> what was thrown. The result is what \<open>traceGeneration\<close> settles to, the
  trace as it ends (a local of the source) and the client.
\<close>

definition traceGeneration ::
  "call_env \<Rightarrow> TraceGenerationOptions \<Rightarrow> (Span \<Rightarrow> Span \<times> (thrown + 'r)) \<Rightarrow> BloopClient
     \<Rightarrow> (thrown + 'r) \<times> Trace \<times> BloopClient" where
  "traceGeneration env opts fn c =
     (let trace0 = startTrace (trace_uuid env) (now_trace_start env)
            \<lparr> TraceOptions.name = TraceGenerationOptions.name opts,
              sessionId = TraceGenerationOptions.sessionId opts,
              userId = TraceGenerationOptions.userId opts,
              input = TraceGenerationOptions.input opts,
              metadata = TraceGenerationOptions.metadata opts,
              promptName = None,
              promptVersion = None \<rparr>;
          (span0, trace1) = Trace_startSpan (span_uuid env) (now_span_start env)
            \<lparr> SpanOptions.spanType = generation,
              name = Some (TraceGenerationOptions.name opts),
              model = TraceGenerationOptions.model opts,
              provider = TraceGenerationOptions.provider opts,
              input = TraceGenerationOptions.input opts,
              metadata = None \<rparr> trace0;
          (span1, settled) = fn span0;
          trace2 = Trace_with_span 0 (\<lambda>_. span1) trace1
      in case settled of
           Inr result \<Rightarrow>
             (let (trace3, c') = Trace_end (now_trace_end env)
                    \<lparr> TraceEndOptions.status = completed, output = Span.output span1 \<rparr> trace2 c
              in (Inr result, trace3, c'))
         | Inl err \<Rightarrow>
             (let trace3 =
                    (if Span.status span1 = None
                     then Trace_with_span 0 (Span_end (now_span_end env)
                            \<lparr> SpanEndOptions.inputTokens = None,
                              outputTokens = None,
                              cost = None,
                              status = span_error,
                              errorMessage =
                                (if instanceof_Error err then thrown_message err
                                 else Some (thrown_String err)),
                              output = None,
                              timeToFirstTokenMs = None \<rparr>) trace2
                     else trace2);
                  (trace4, c') = Trace_end (now_trace_end env)
                    \<lparr> TraceEndOptions.status = trace_error, output = None \<rparr> trace3 c
              in (Inl err, trace4, c')))"

section \<open>Instrumented provider calls\<close>

text \<open>
  Requests and responses are \<open>any\<close> in the source. The model keeps the members that the
  code reads, at the types the provider interfaces give them: a model name, token counts
  that are numbers, texts that are strings. An absent member, or an absent (undefined or
  null) response, is \<open>None\<close>; \<open>?.\<close> is \<open>Option.bind\<close>. The \<open>messages\<close> of a request are
  any value, as the code calls a method of theirs.
\<close>

record Params =
  model :: "string option"
  messages :: "jsval option"

record Usage =
  prompt_tokens :: "rat option"
  completion_tokens :: "rat option"

record ChatMessage =
  content :: "string option"

record Choice =
  message :: "ChatMessage option"

record OpenAIResponse =
  usage :: "Usage option"
  choices :: "Choice list option"

record AnthropicUsage =
  input_tokens :: "rat option"
  output_tokens :: "rat option"

record ContentBlock =
  text' :: "string option"

record AnthropicResponse =
  usage :: "AnthropicUsage option"
  content :: "ContentBlock list option"

text \<open>\<open>args[0] || {}\<close>, \<open>xs[0]\<close> and \<open>xs.slice(-1)\<close>.\<close>

definition first_params :: "Params option list \<Rightarrow> Params" where
  "first_params args =
     (case args of
        Some p # _ \<Rightarrow> p
      | _ \<Rightarrow> \<lparr>Params.model = None, messages = None\<rparr>)"

definition at0 :: "'a list \<Rightarrow> 'a option" where
  "at0 xs = (case xs of [] \<Rightarrow> None | x # _ \<Rightarrow> Some x)"

definition slice_last :: "'a list \<Rightarrow> 'a list" where
  "slice_last xs = (if xs = [] then [] else [last xs])"

text \<open>
  \<open>params.messages ? JSON.stringify(params.messages.slice(-1)) : undefined\<close>: arrays and
  strings have \<open>slice\<close>; on another truthy value the call of \<open>slice\<close> throws a TypeError
  (an object with a \<open>slice\<close> of its own is outside the model).
\<close>

definition request_input :: "(jsval \<Rightarrow> string) \<Rightarrow> jsval option \<Rightarrow> thrown + string option" where
  "request_input stringify_fn msgs =
     (case msgs of
        None \<Rightarrow> Inr None
      | Some v \<Rightarrow>
          if js_truthy v
          then (case v of
                  JArr xs \<Rightarrow> Inr (Some (stringify_fn (JArr (slice_last xs))))
                | JStr str \<Rightarrow> Inr (Some (stringify_fn (JStr (slice_last str))))
                | _ \<Rightarrow> Inl (ErrorInst ''TypeError'' ''params.messages.slice is not a function''))
          else Inr None)"

text \<open>
  \<open>this._modelCosts[model] || MODEL_COSTS[model]\<close>, and the cost: 0 unless \<open>rates\<close> is
  truthy, else \<open>inputTokens * rates.input + outputTokens * rates.output\<close>, which is NaN
  when \<open>rates\<close> has no \<open>input\<close> and \<open>output\<close>.
\<close>

definition lookup_rates :: "(rat \<Rightarrow> rat) \<Rightarrow> BloopClient \<Rightarrow> string \<Rightarrow> found" where
  "lookup_rates rnd c m =
     (if found_truthy (modelCosts_get c m) then modelCosts_get c m else MODEL_COSTS_get rnd m)"

definition call_cost :: "(rat \<Rightarrow> rat) \<Rightarrow> found \<Rightarrow> rat \<Rightarrow> rat \<Rightarrow> number" where
  "call_cost rnd rates_found inTok outTok =
     (if found_truthy rates_found
      then (case rates_found of
              Entry r \<Rightarrow> Num (rnd (rnd (inTok * rate_input r) + rnd (outTok * rate_output r)))
            | _ \<Rightarrow> NaN)
      else Num 0)"

text \<open>
  The result is what the call settles to, the trace (a local of the source) and the
  client. The input of the span is computed after the trace is started and before the
  \<open>try\<close>: an exception there leaves the call with the trace started, not ended, and the
  original function not called.
\<close>

definition traceOpenAICall ::
  "call_env \<Rightarrow> string \<Rightarrow> string \<Rightarrow> (Params option list \<Rightarrow> thrown + OpenAIResponse option)
     \<Rightarrow> Params option list \<Rightarrow> BloopClient
     \<Rightarrow> (thrown + OpenAIResponse option) \<times> Trace \<times> BloopClient" where
  "traceOpenAICall env prov method fn args c =
     (let params = first_params args;
          model = str_or (Params.model params) ''unknown'';
          traceName = prov @ ''.'' @ method;
          trace0 = startTrace (trace_uuid env) (now_trace_start env)
            \<lparr> TraceOptions.name = traceName, sessionId = None, userId = None, input = None,
              metadata = None, promptName = None, promptVersion = None \<rparr>
      in case request_input (stringify env) (Params.messages params) of
           Inl e \<Rightarrow> (Inl e, trace0, c)
         | Inr inp \<Rightarrow>
             (let (span, trace1) = Trace_startSpan (span_uuid env) (now_span_start env)
                    \<lparr> SpanOptions.spanType = generation,
                      name = Some traceName,
                      model = Some model,
                      provider = Some prov,
                      input = inp,
                      metadata = None \<rparr> trace0
              in case fn args of
                   Inr response \<Rightarrow>
                     (let usage = Option.bind response OpenAIResponse.usage;
                          inputTokens = num_or (Option.bind usage prompt_tokens) 0;
                          outputTokens = num_or (Option.bind usage completion_tokens) 0;
                          rates = lookup_rates (round_double env) c model;
                          cost = call_cost (round_double env) rates inputTokens outputTokens;
                          output = Option.bind (Option.bind (Option.bind (Option.bind response
                                     choices) at0) Choice.message) ChatMessage.content;
                          trace2 = Trace_with_span 0 (Span_end (now_span_end env)
                            \<lparr> SpanEndOptions.inputTokens = Some inputTokens,
                              outputTokens = Some outputTokens,
                              cost = Some cost,
                              status = span_ok,
                              errorMessage = None,
                              output = output,
                              timeToFirstTokenMs = None \<rparr>) trace1;
                          (trace3, c') = Trace_end (now_trace_end env)
                            \<lparr> TraceEndOptions.status = completed, output = output \<rparr> trace2 c
                      in (Inr response, trace3, c'))
                 | Inl err \<Rightarrow>
                     (let trace2 = Trace_with_span 0 (Span_end (now_span_end env)
                            \<lparr> SpanEndOptions.inputTokens = None,
                              outputTokens = None,
                              cost = None,
                              status = span_error,
                              errorMessage =
                                Some (str_or (thrown_message err) (thrown_String err)),
                              output = None,
                              timeToFirstTokenMs = None \<rparr>) trace1;
                          (trace3, c') = Trace_end (now_trace_end env)
                            \<lparr> TraceEndOptions.status = trace_error, output = None \<rparr> trace2 c
                      in (Inl err, trace3, c'))))"

definition traceAnthropicCall ::
  "call_env \<Rightarrow> (Params option list \<Rightarrow> thrown + AnthropicResponse option)
     \<Rightarrow> Params option list \<Rightarrow> BloopClient
     \<Rightarrow> (thrown + AnthropicResponse option) \<times> Trace \<times> BloopClient" where
  "traceAnthropicCall env fn args c =
     (let params = first_params args;
          model = str_or (Params.model params) ''unknown'';
          trace0 = startTrace (trace_uuid env) (now_trace_start env)
            \<lparr> TraceOptions.name = ''anthropic.messages.create'', sessionId = None,
              userId = None, input = None, metadata = None, promptName = None,
              promptVersion = None \<rparr>;
          (span, trace1) = Trace_startSpan (span_uuid env) (now_span_start env)
            \<lparr> SpanOptions.spanType = generation,
              name = Some ''anthropic.messages.create'',
              model = Some model,
              provider = Some ''anthropic'',
              input = None,
              metadata = None \<rparr> trace0
      in case fn args of
           Inr response \<Rightarrow>
             (let usage = Option.bind response AnthropicResponse.usage;
                  inputTokens = num_or (Option.bind usage input_tokens) 0;
                  outputTokens = num_or (Option.bind usage output_tokens) 0;
                  rates = lookup_rates (round_double env) c model;
                  cost = call_cost (round_double env) rates inputTokens outputTokens;
                  output = Option.bind (Option.bind (Option.bind response
                             AnthropicResponse.content) at0) text';
                  trace2 = Trace_with_span 0 (Span_end (now_span_end env)
                    \<lparr> SpanEndOptions.inputTokens = Some inputTokens,
                      outputTokens = Some outputTokens,
                      cost = Some cost,
                      status = span_ok,
                      errorMessage = None,
                      output = output,
                      timeToFirstTokenMs = None \<rparr>) trace1;
                  (trace3, c') = Trace_end (now_trace_end env)
                    \<lparr> TraceEndOptions.status = completed, output = output \<rparr> trace2 c
              in (Inr response, trace3, c'))
         | Inl err \<Rightarrow>
             (let trace2 = Trace_with_span 0 (Span_end (now_span_end env)
                    \<lparr> SpanEndOptions.inputTokens = None,
                      outputTokens = None,
                      cost = None,
                      status = span_error,
                      errorMessage = Some (str_or (thrown_message err) (thrown_String err)),
                      output = None,
                      timeToFirstTokenMs = None \<rparr>) trace1;
                  (trace3, c') = Trace_end (now_trace_end env)
                    \<lparr> TraceEndOptions.status = trace_error, output = None \<rparr> trace2 c
              in (Inl err, trace3, c')))"

section \<open>Wrapping a provider client\<close>

text \<open>
  \<open>Reflect.get(target, prop, receiver)\<close> on a target: the data property that the target
  has under that name, or undefined. The receiver plays no part in the read of a data
  property; it is the \<open>this\<close> of a call of what was read (\<open>call_member\<close> below).
  Functions and arrays are objects with no data property in this model.
\<close>

fun reflect_get :: "jsval \<Rightarrow> string \<Rightarrow> jsval" where
  "reflect_get (JObj kvs) k = (case map_of kvs k of Some v \<Rightarrow> v | None \<Rightarrow> JUndefined)"
| "reflect_get _ k = JUndefined"

fun is_object :: "jsval \<Rightarrow> bool" where
  "is_object (JObj kvs) = True"
| "is_object (JArr xs) = True"
| "is_object (JFun f) = True"
| "is_object _ = False"

fun is_function :: "jsval \<Rightarrow> bool" where
  "is_function (JFun f) = True"
| "is_function _ = False"

text \<open>\<open>v?.k\<close> on any value: undefined for undefined and null.\<close>

definition opt_get :: "jsval \<Rightarrow> string \<Rightarrow> jsval" where
  "opt_get v k = reflect_get v k"

definition PROVIDER_MAP :: "string \<rightharpoonup> string" where
  "PROVIDER_MAP = map_of
     [ (''api.openai.com'', ''openai''),
       (''api.anthropic.com'', ''anthropic''),
       (''api.minimax.io'', ''minimax''),
       (''api.minimaxi.com'', ''minimax''),
       (''api.moonshot.ai'', ''kimi''),
       (''generativelanguage.googleapis.com'', ''google'') ]"

text \<open>
  \<open>hostname\<close> is \<open>new URL(baseURL).hostname\<close>, \<open>None\<close> where it throws; a parameter, as the
  URL parser is the platform's. \<open>PROVIDER_MAP[hostname] || hostname\<close> is a name, but for a
  host name that is a member of \<open>Object.prototype\<close>, where it is that member.
\<close>

datatype detected = Provider string | InheritedMember string

definition detectProvider :: "(jsval \<Rightarrow> string option) \<Rightarrow> jsval \<Rightarrow> detected" where
  "detectProvider hostname cl =
     (let b1 = opt_get cl ''baseURL'';
          b2 = opt_get (opt_get cl ''_options'') ''baseURL'';
          baseURL = (if js_truthy b1 then b1 else if js_truthy b2 then b2 else JStr [])
      in case hostname baseURL of
           None \<Rightarrow> Provider ''unknown''
         | Some h \<Rightarrow>
             (case PROVIDER_MAP h of
                Some entry \<Rightarrow> Provider (str_or (Some entry) h)
              | None \<Rightarrow>
                  if h \<in> set Object_prototype_members then InheritedMember h
                  else Provider h))"

text \<open>
  The text of the provider in a template literal, as the name of a trace has it: the
  name, \<open>[object Object]\<close> for \<open>Object.prototype\<close>, the rendering of a built-in function
  (\<open>Object\<close> is the \<open>constructor\<close>) otherwise.
\<close>

definition provider_text :: "detected \<Rightarrow> string" where
  "provider_text d =
     (case d of
        Provider entry \<Rightarrow> entry
      | InheritedMember k \<Rightarrow>
          if k = ''__proto__'' then ''[object Object]''
          else ''function '' @ (if k = ''constructor'' then ''Object'' else k)
               @ ''() { [native code] }'')"

text \<open>
  The runtime's own exception, the proxies that the wrappers build (one kind for each
  \<open>get\<close> handler, with the text of the provider that the handler's closure holds), and
  what a property read can yield: a value of the original, a proxy around a target, or the
  \<open>async\<close> function that stands in for \<open>create\<close> (with the original function and the
  target it is bound to). In a traced call the provider is that text; a span's
  \<open>provider\<close> that is an inherited member and no string is outside the model.
\<close>

datatype js_error = TypeError

datatype handler =
    OpenAI_client string
  | OpenAI_chat string
  | OpenAI_completions string
  | OpenAI_embeddings string
  | Anthropic_client
  | Anthropic_messages

datatype instrumented =
    OpenAICall string string jsval jsval
  | AnthropicCall jsval jsval

datatype view =
    Plain jsval
  | Proxied handler jsval
  | Instrumented instrumented

text \<open>\<open>new Proxy(target, handler)\<close> throws a TypeError unless the target is an object.\<close>

definition new_Proxy :: "handler \<Rightarrow> jsval \<Rightarrow> js_error + view" where
  "new_Proxy h target = (if is_object target then Inr (Proxied h target) else Inl TypeError)"

fun proxy_get :: "handler \<Rightarrow> jsval \<Rightarrow> string \<Rightarrow> js_error + view" where
  "proxy_get (OpenAI_client p) target prop =
     (let val = reflect_get target prop
      in if prop = ''chat'' then new_Proxy (OpenAI_chat p) val
         else if prop = ''embeddings'' then new_Proxy (OpenAI_embeddings p) val
         else Inr (Plain val))"
| "proxy_get (OpenAI_chat p) chatTarget chatProp =
     (let chatVal = reflect_get chatTarget chatProp
      in if chatProp = ''completions'' then new_Proxy (OpenAI_completions p) chatVal
         else Inr (Plain chatVal))"
| "proxy_get (OpenAI_completions p) compTarget compProp =
     (let compVal = reflect_get compTarget compProp
      in if compProp = ''create'' \<and> is_function compVal
         then Inr (Instrumented (OpenAICall p ''chat.completions.create'' compVal compTarget))
         else Inr (Plain compVal))"
| "proxy_get (OpenAI_embeddings p) embTarget embProp =
     (let embVal = reflect_get embTarget embProp
      in if embProp = ''create'' \<and> is_function embVal
         then Inr (Instrumented (OpenAICall p ''embeddings.create'' embVal embTarget))
         else Inr (Plain embVal))"
| "proxy_get Anthropic_client target prop =
     (let val = reflect_get target prop
      in if prop = ''messages'' then new_Proxy Anthropic_messages val
         else Inr (Plain val))"
| "proxy_get Anthropic_messages msgTarget msgProp =
     (let msgVal = reflect_get msgTarget msgProp
      in if msgProp = ''create'' \<and> is_function msgVal
         then Inr (Instrumented (AnthropicCall msgVal msgTarget))
         else Inr (Plain msgVal))"

definition wrapOpenAI :: "(jsval \<Rightarrow> string option) \<Rightarrow> jsval \<Rightarrow> js_error + view" where
  "wrapOpenAI hostname cl =
     new_Proxy (OpenAI_client (provider_text (detectProvider hostname cl))) cl"

definition wrapAnthropic :: "jsval \<Rightarrow> js_error + view" where
  "wrapAnthropic cl = new_Proxy Anthropic_client cl"

text \<open>
  Reading a property of whatever an earlier read yielded, as \<open>x.k\<close> does: a TypeError on
  undefined and null, the handler on a proxy, the own property otherwise. Reading a
  chain \<open>x.k1.k2...\<close> stops at the first exception.
\<close>

fun view_get :: "view \<Rightarrow> string \<Rightarrow> js_error + view" where
  "view_get (Plain v) k =
     (if v = JUndefined \<or> v = JNull then Inl TypeError else Inr (Plain (reflect_get v k)))"
| "view_get (Proxied h target) k = proxy_get h target k"
| "view_get (Instrumented f) k = Inr (Plain JUndefined)"

fun read_path :: "view \<Rightarrow> string list \<Rightarrow> js_error + view" where
  "read_path v [] = Inr v"
| "read_path v (k # ks) = (case view_get v k of Inl e \<Rightarrow> Inl e | Inr v' \<Rightarrow> read_path v' ks)"

text \<open>
  A method call \<open>x.k(args)\<close>: the member is read from \<open>x\<close>, and what was read is called
  with \<open>x\<close> as its \<open>this\<close>. The result says which function runs, with which receiver and
  which arguments, or that the instrumented function runs; calling what is no function
  throws a TypeError. A proxy with no \<open>apply\<close> trap calls its target.
\<close>

datatype invocation =
    Invoke jsval view "jsval list"
  | InvokeInstrumented instrumented "jsval list"

definition call_member :: "view \<Rightarrow> string \<Rightarrow> jsval list \<Rightarrow> js_error + invocation" where
  "call_member x k args =
     (case view_get x k of
        Inl e \<Rightarrow> Inl e
      | Inr (Plain f) \<Rightarrow> if is_function f then Inr (Invoke f x args) else Inl TypeError
      | Inr (Proxied h target) \<Rightarrow>
          if is_function target then Inr (Invoke target x args) else Inl TypeError
      | Inr (Instrumented f) \<Rightarrow> Inr (InvokeInstrumented f args))"

text \<open>
  Whether the handler of a proxy puts something of its own in the place of property \<open>k\<close>
  of its target: the tests on the property name (and on \<open>typeof ... === "function"\<close>) in the
  handlers above.
\<close>

fun intercepts :: "handler \<Rightarrow> jsval \<Rightarrow> string \<Rightarrow> bool" where
  "intercepts (OpenAI_client p) target k = (k = ''chat'' \<or> k = ''embeddings'')"
| "intercepts (OpenAI_chat p) target k = (k = ''completions'')"
| "intercepts (OpenAI_completions p) target k =
     (k = ''create'' \<and> is_function (reflect_get target k))"
| "intercepts (OpenAI_embeddings p) target k =
     (k = ''create'' \<and> is_function (reflect_get target k))"
| "intercepts Anthropic_client target k = (k = ''messages'')"
| "intercepts Anthropic_messages target k =
     (k = ''create'' \<and> is_function (reflect_get target k))"

section \<open>Auxiliary notions for the statements\<close>

text \<open>The span that \<open>traceGeneration\<close> starts and hands to the callback.\<close>

definition generation_span :: "call_env \<Rightarrow> TraceGenerationOptions \<Rightarrow> Span" where
  "generation_span env opts =
     Span_new (span_uuid env) (now_span_start env)
       \<lparr> SpanOptions.spanType = generation,
         name = Some (TraceGenerationOptions.name opts),
         model = TraceGenerationOptions.model opts,
         provider = TraceGenerationOptions.provider opts,
         input = TraceGenerationOptions.input opts,
         metadata = None \<rparr> None"

text \<open>
  The operations on a trace and on the spans it holds, to speak of any sequence of them,
  and the spans that such a sequence starts: identifier and parent, in order.
\<close>

datatype trace_op =
    OpStartSpan string int SpanOptions
  | OpSpanEnd nat int SpanEndOptions
  | OpEnd int TraceEndOptions

fun apply_op :: "trace_op \<Rightarrow> Trace \<Rightarrow> Trace" where
  "apply_op (OpStartSpan uuid now opts) t = snd (Trace_startSpan uuid now opts t)"
| "apply_op (OpSpanEnd i now opts) t = Trace_with_span i (Span_end now opts) t"
| "apply_op (OpEnd now opts) t = Trace_ended now opts t"

fun started :: "trace_op list \<Rightarrow> (string \<times> string option) list" where
  "started [] = []"
| "started (OpStartSpan uuid now opts # ops) = (uuid, None) # started ops"
| "started (_ # ops) = started ops"

definition span_key :: "Span \<Rightarrow> string \<times> string option" where
  "span_key s = (Span.id' s, Span.parentSpanId s)"

text \<open>The configuration that goes into every ingest event.\<close>

definition event_config :: "BloopClient \<Rightarrow> string \<times> string \<times> string" where
  "event_config c = (source c, environment c, release c)"

text \<open>
  Concrete inputs, after the SDK's tests: a fresh client, a runtime with nothing pending,
  an environment for one traced call (with numbers that need no rounding), an event, a
  chat request and its response, and a client object that has \<open>chat.completions.create\<close>
  and nothing else. Three more requests: one whose \<open>messages\<close> are a single message and
  no array, one for a model called \<open>toString\<close>, and one for a model that no table lists.
\<close>

definition test_client :: BloopClient where
  "test_client =
     \<lparr> source = ''api'', environment = ''test'', release = ''1.0.0'', maxBufferSize = Some 20,
       buffer = [], traceBuffer = [], modelCosts = Map.empty, modelCostsProto = None \<rparr>"

definition test_runtime :: Runtime where
  "test_runtime =
     \<lparr> client = test_client, errorsAwaitingKey = 0, tracesAwaitingKey = 0,
       errorBatches = [], traceBatches = [] \<rparr>"

definition test_env :: call_env where
  "test_env =
     \<lparr> trace_uuid = ''t-1'', span_uuid = ''s-1'', now_trace_start = 1000,
       now_span_start = 1001, now_span_end = 1250, now_trace_end = 1251,
       stringify = (\<lambda>v. ''[...]''), round_double = (\<lambda>x. x) \<rparr>"

definition test_event :: "string \<Rightarrow> ErrorEvent" where
  "test_event msg =
     \<lparr> errorType = ''TestError'', message = msg, route = Some [], stack = None,
       httpStatus = Some 0, requestId = None, userIdHash = None, metadata = None \<rparr>"

definition test_args :: "Params option list" where
  "test_args = [Some \<lparr>Params.model = Some ''gpt-4o'', messages = Some (JArr [JStr ''Hello''])\<rparr>]"

definition malformed_args :: "Params option list" where
  "malformed_args =
     [Some \<lparr>Params.model = Some ''gpt-4o'',
            messages = Some (JObj [(''role'', JStr ''user''), (''content'', JStr ''Hello'')])\<rparr>]"

definition toString_args :: "Params option list" where
  "toString_args = [Some \<lparr>Params.model = Some ''toString'', messages = None\<rparr>]"

definition unlisted_args :: "Params option list" where
  "unlisted_args = [Some \<lparr>Params.model = Some ''my-model'', messages = None\<rparr>]"

definition test_response :: "OpenAIResponse option" where
  "test_response =
     Some \<lparr> OpenAIResponse.usage = Some \<lparr>prompt_tokens = Some 100, completion_tokens = Some 50\<rparr>,
            choices = Some [\<lparr>Choice.message = Some \<lparr>ChatMessage.content = Some ''Hi!''\<rparr>\<rparr>] \<rparr>"

definition test_anthropic_response :: "AnthropicResponse option" where
  "test_anthropic_response =
     Some \<lparr> AnthropicResponse.usage = Some \<lparr>input_tokens = Some 100, output_tokens = None\<rparr>,
            content = Some [\<lparr>text' = Some ''hello''\<rparr>] \<rparr>"

definition plain_openai :: jsval where
  "plain_openai =
     JObj [(''chat'', JObj [(''completions'', JObj [(''create'', JFun 0)])])]"

text \<open>A span and a trace made from the required options only.\<close>

definition minimal_span :: Span where
  "minimal_span =
     Span_new ''s-1'' 1001
       \<lparr> SpanOptions.spanType = tool, name = None, model = None, provider = None, input = None,
         metadata = None \<rparr> None"

definition minimal_trace :: Trace where
  "minimal_trace =
     snd (Trace_startSpan ''s-1'' 1001
       \<lparr> SpanOptions.spanType = tool, name = None, model = None, provider = None, input = None,
         metadata = None \<rparr>
       (startTrace ''t-1'' 1000
          \<lparr> TraceOptions.name = ''minimal-trace'', sessionId = None, userId = None, input = None,
            metadata = None, promptName = None, promptVersion = None \<rparr>))"

text \<open>
  Callbacks and provider functions after the SDK's tests and usage notes: a callback that
  ends its span and returns, one that throws, and provider calls that resolve or reject.
\<close>

definition test_gen_opts :: TraceGenerationOptions where
  "test_gen_opts =
     \<lparr> TraceGenerationOptions.name = ''simple-generation'', model = Some ''gpt-4o'',
       provider = Some ''openai'', input = Some ''Hello'', sessionId = None, userId = None,
       metadata = None \<rparr>"

definition callback_ok :: "Span \<Rightarrow> Span \<times> (thrown + string)" where
  "callback_ok sp =
     (Span_end 1200
        \<lparr> SpanEndOptions.inputTokens = Some 10, outputTokens = Some 5, cost = Some (Num (1 / 1000)),
          status = span_ok, errorMessage = None, output = Some ''Hi!'',
          timeToFirstTokenMs = None \<rparr> sp,
      Inr ''Hi!'')"

definition callback_throws :: "Span \<Rightarrow> Span \<times> (thrown + string)" where
  "callback_throws sp = (sp, Inl (ErrorInst ''Error'' ''boom''))"

definition callback_ends_then_throws :: "Span \<Rightarrow> Span \<times> (thrown + string)" where
  "callback_ends_then_throws sp = (fst (callback_ok sp), Inl (ThrownString ''late''))"

definition provider_ok :: "Params option list \<Rightarrow> thrown + OpenAIResponse option" where
  "provider_ok args = Inr test_response"

definition provider_throws :: "Params option list \<Rightarrow> thrown + OpenAIResponse option" where
  "provider_throws args = Inl (ErrorInst ''RateLimitError'' ''429 Too Many Requests'')"

definition anthropic_ok :: "Params option list \<Rightarrow> thrown + AnthropicResponse option" where
  "anthropic_ok args = Inr test_anthropic_response"

definition anthropic_throws :: "Params option list \<Rightarrow> thrown + AnthropicResponse option" where
  "anthropic_throws args = Inl (ThrownString ''overloaded'')"

text \<open>
  A client object with members that the wrapper knows nothing of, and the runtime in the
  middle of a flush: an event was captured, a trace ended, and \<open>flush\<close> was called and
  waits for the key.
\<close>

definition extended_client :: jsval where
  "extended_client =
     JObj [ (''chat'', JObj [(''completions'', JObj [(''create'', JFun 0)]), (''beta'', JBool True)]),
            (''baseURL'', JStr ''https://api.openai.com/v1''),
            (''_options'', JObj [(''timeout'', JNum 600)]),
            (''customProp'', JStr ''custom''),
            (''someMethod'', JFun 1) ]"

definition mid_flush :: Runtime where
  "mid_flush =
     run [ Capture 1 (test_event ''a''),
           EndTrace 5 \<lparr>TraceEndOptions.status = completed, output = None\<rparr> minimal_trace,
           Flush ] test_runtime"

section \<open>Serialization of spans and traces\<close>

lemma or_null_None: "or_null conv None = JNull"
  by (simp add: or_null_def)

lemma Span_toJSON_keys:
  "map fst (Span_toJSON s) =
     [''id'', ''parent_span_id'', ''span_type'', ''name'', ''model'', ''provider'', ''input'',
      ''output'', ''metadata'', ''started_at'', ''input_tokens'', ''output_tokens'', ''cost'',
      ''latency_ms'', ''time_to_first_token_ms'', ''status'', ''error_message'']"
  by (simp add: Span_toJSON_def)

lemma Span_toJSON_null:
  "(Span.parentSpanId s = None \<longrightarrow> map_of (Span_toJSON s) ''parent_span_id'' = Some JNull)
   \<and> (Span.model s = None \<longrightarrow> map_of (Span_toJSON s) ''model'' = Some JNull)
   \<and> (Span.provider s = None \<longrightarrow> map_of (Span_toJSON s) ''provider'' = Some JNull)
   \<and> (Span.input s = None \<longrightarrow> map_of (Span_toJSON s) ''input'' = Some JNull)
   \<and> (Span.output s = None \<longrightarrow> map_of (Span_toJSON s) ''output'' = Some JNull)
   \<and> (Span.metadata s = None \<longrightarrow> map_of (Span_toJSON s) ''metadata'' = Some JNull)
   \<and> (Span.inputTokens s = None \<longrightarrow> map_of (Span_toJSON s) ''input_tokens'' = Some JNull)
   \<and> (Span.outputTokens s = None \<longrightarrow> map_of (Span_toJSON s) ''output_tokens'' = Some JNull)
   \<and> (Span.cost s = None \<longrightarrow> map_of (Span_toJSON s) ''cost'' = Some JNull)
   \<and> (Span.latencyMs s = None \<longrightarrow> map_of (Span_toJSON s) ''latency_ms'' = Some JNull)
   \<and> (Span.timeToFirstTokenMs s = None \<longrightarrow>
         map_of (Span_toJSON s) ''time_to_first_token_ms'' = Some JNull)
   \<and> (Span.status s = None \<longrightarrow> map_of (Span_toJSON s) ''status'' = Some JNull)
   \<and> (Span.errorMessage s = None \<longrightarrow> map_of (Span_toJSON s) ''error_message'' = Some JNull)"
  by (simp add: Span_toJSON_def or_null_None)

lemma JNumber_defined: "JUndefined \<noteq> JNumber x"
  by (cases x) simp_all

lemma Span_toJSON_no_undefined: "JUndefined \<notin> snd ` set (Span_toJSON s)"
  by (simp add: Span_toJSON_def or_null_def JInt_def JNumber_defined split: option.split)

lemma Trace_toPayload_keys:
  "map fst (Trace_toPayload t) =
     [''id'', ''session_id'', ''user_id'', ''name'', ''status'', ''input'', ''output'',
      ''metadata'', ''prompt_name'', ''prompt_version'', ''started_at'', ''ended_at'', ''spans'']"
  by (simp add: Trace_toPayload_def)

lemma Trace_toPayload_null:
  "(Trace.sessionId t = None \<longrightarrow> map_of (Trace_toPayload t) ''session_id'' = Some JNull)
   \<and> (Trace.userId t = None \<longrightarrow> map_of (Trace_toPayload t) ''user_id'' = Some JNull)
   \<and> (Trace.input t = None \<longrightarrow> map_of (Trace_toPayload t) ''input'' = Some JNull)
   \<and> (Trace.output t = None \<longrightarrow> map_of (Trace_toPayload t) ''output'' = Some JNull)
   \<and> (Trace.metadata t = None \<longrightarrow> map_of (Trace_toPayload t) ''metadata'' = Some JNull)
   \<and> (Trace.promptName t = None \<longrightarrow> map_of (Trace_toPayload t) ''prompt_name'' = Some JNull)
   \<and> (Trace.promptVersion t = None \<longrightarrow>
         map_of (Trace_toPayload t) ''prompt_version'' = Some JNull)
   \<and> (Trace.endedAt t = None \<longrightarrow> map_of (Trace_toPayload t) ''ended_at'' = Some JNull)"
  by (simp add: Trace_toPayload_def or_null_None)

lemma Trace_toPayload_no_undefined: "JUndefined \<notin> snd ` set (Trace_toPayload t)"
  by (simp add: Trace_toPayload_def or_null_def JInt_def split: option.split)

lemma Trace_toPayload_spans:
  "map_of (Trace_toPayload t) ''spans''
     = Some (JArr (map (\<lambda>s. JObj (Span_toJSON s)) (Trace.spans t)))"
  by (simp add: Trace_toPayload_def)

text \<open>
  Claim C6. The object that \<open>Span.toJSON\<close> builds always has the same seventeen keys and
  the payload that \<open>Trace._toPayload\<close> builds always has the same thirteen, whatever is
  set; no member is undefined, so \<open>JSON.stringify\<close> drops none; and every optional
  field that is absent is there with the value null. The spans of a payload are the
  \<open>toJSON\<close> objects of the trace's spans.
\<close>

theorem absent_fields_serialize_as_null:
  "map fst (Span_toJSON s) =
     [''id'', ''parent_span_id'', ''span_type'', ''name'', ''model'', ''provider'', ''input'',
      ''output'', ''metadata'', ''started_at'', ''input_tokens'', ''output_tokens'', ''cost'',
      ''latency_ms'', ''time_to_first_token_ms'', ''status'', ''error_message'']
   \<and> JUndefined \<notin> snd ` set (Span_toJSON s)
   \<and> (Span.parentSpanId s = None \<longrightarrow> map_of (Span_toJSON s) ''parent_span_id'' = Some JNull)
   \<and> (Span.model s = None \<longrightarrow> map_of (Span_toJSON s) ''model'' = Some JNull)
   \<and> (Span.provider s = None \<longrightarrow> map_of (Span_toJSON s) ''provider'' = Some JNull)
   \<and> (Span.input s = None \<longrightarrow> map_of (Span_toJSON s) ''input'' = Some JNull)
   \<and> (Span.output s = None \<longrightarrow> map_of (Span_toJSON s) ''output'' = Some JNull)
   \<and> (Span.metadata s = None \<longrightarrow> map_of (Span_toJSON s) ''metadata'' = Some JNull)
   \<and> (Span.inputTokens s = None \<longrightarrow> map_of (Span_toJSON s) ''input_tokens'' = Some JNull)
   \<and> (Span.outputTokens s = None \<longrightarrow> map_of (Span_toJSON s) ''output_tokens'' = Some JNull)
   \<and> (Span.cost s = None \<longrightarrow> map_of (Span_toJSON s) ''cost'' = Some JNull)
   \<and> (Span.latencyMs s = None \<longrightarrow> map_of (Span_toJSON s) ''latency_ms'' = Some JNull)
   \<and> (Span.timeToFirstTokenMs s = None \<longrightarrow>
         map_of (Span_toJSON s) ''time_to_first_token_ms'' = Some JNull)
   \<and> (Span.status s = None \<longrightarrow> map_of (Span_toJSON s) ''status'' = Some JNull)
   \<and> (Span.errorMessage s = None \<longrightarrow> map_of (Span_toJSON s) ''error_message'' = Some JNull)
   \<and> map fst (Trace_toPayload t) =
     [''id'', ''session_id'', ''user_id'', ''name'', ''status'', ''input'', ''output'',
      ''metadata'', ''prompt_name'', ''prompt_version'', ''started_at'', ''ended_at'', ''spans'']
   \<and> JUndefined \<notin> snd ` set (Trace_toPayload t)
   \<and> map_of (Trace_toPayload t) ''spans''
       = Some (JArr (map (\<lambda>s. JObj (Span_toJSON s)) (Trace.spans t)))
   \<and> (Trace.sessionId t = None \<longrightarrow> map_of (Trace_toPayload t) ''session_id'' = Some JNull)
   \<and> (Trace.userId t = None \<longrightarrow> map_of (Trace_toPayload t) ''user_id'' = Some JNull)
   \<and> (Trace.input t = None \<longrightarrow> map_of (Trace_toPayload t) ''input'' = Some JNull)
   \<and> (Trace.output t = None \<longrightarrow> map_of (Trace_toPayload t) ''output'' = Some JNull)
   \<and> (Trace.metadata t = None \<longrightarrow> map_of (Trace_toPayload t) ''metadata'' = Some JNull)
   \<and> (Trace.promptName t = None \<longrightarrow> map_of (Trace_toPayload t) ''prompt_name'' = Some JNull)
   \<and> (Trace.promptVersion t = None \<longrightarrow>
         map_of (Trace_toPayload t) ''prompt_version'' = Some JNull)
   \<and> (Trace.endedAt t = None \<longrightarrow> map_of (Trace_toPayload t) ''ended_at'' = Some JNull)"
  using Span_toJSON_keys [of s] Span_toJSON_no_undefined [of s] Span_toJSON_null [of s]
    Trace_toPayload_keys [of t] Trace_toPayload_no_undefined [of t] Trace_toPayload_spans [of t]
    Trace_toPayload_null [of t]
  by blast

lemma minimal_span_eq:
  "minimal_span =
     \<lparr> Span.id' = ''s-1'', parentSpanId = None, spanType = tool, name = ''tool'', model = None,
       provider = None, startedAt = 1001, input = None, metadata = None, inputTokens = None,
       outputTokens = None, cost = None, latencyMs = None, timeToFirstTokenMs = None,
       status = None, errorMessage = None, output = None \<rparr>"
  by (simp add: minimal_span_def Span_new_def)

lemma minimal_trace_eq:
  "minimal_trace =
     \<lparr> Trace.id' = ''t-1'', name = ''minimal-trace'', sessionId = None, userId = None,
       status = running, input = None, output = None, metadata = None, promptName = None,
       promptVersion = None, startedAt = 1000, endedAt = None, spans = [minimal_span] \<rparr>"
  by (simp add: minimal_trace_def minimal_span_def Trace_startSpan_def startTrace_def
      Trace_new_def Let_def)

theorem absent_fields_serialize_as_null_witness:
  "minimal_span =
     \<lparr> Span.id' = ''s-1'', parentSpanId = None, spanType = tool, name = ''tool'', model = None,
       provider = None, startedAt = 1001, input = None, metadata = None, inputTokens = None,
       outputTokens = None, cost = None, latencyMs = None, timeToFirstTokenMs = None,
       status = None, errorMessage = None, output = None \<rparr>
   \<and> minimal_trace =
     \<lparr> Trace.id' = ''t-1'', name = ''minimal-trace'', sessionId = None, userId = None,
       status = running, input = None, output = None, metadata = None, promptName = None,
       promptVersion = None, startedAt = 1000, endedAt = None, spans = [minimal_span] \<rparr>
   \<and> Span_toJSON minimal_span =
     [ (''id'', JStr ''s-1''), (''parent_span_id'', JNull), (''span_type'', JStr ''tool''),
       (''name'', JStr ''tool''), (''model'', JNull), (''provider'', JNull), (''input'', JNull),
       (''output'', JNull), (''metadata'', JNull), (''started_at'', JNum 1001),
       (''input_tokens'', JNull), (''output_tokens'', JNull), (''cost'', JNull),
       (''latency_ms'', JNull), (''time_to_first_token_ms'', JNull), (''status'', JNull),
       (''error_message'', JNull) ]
   \<and> Trace_toPayload minimal_trace =
     [ (''id'', JStr ''t-1''), (''session_id'', JNull), (''user_id'', JNull),
       (''name'', JStr ''minimal-trace''), (''status'', JStr ''running''), (''input'', JNull),
       (''output'', JNull), (''metadata'', JNull), (''prompt_name'', JNull),
       (''prompt_version'', JNull), (''started_at'', JNum 1000), (''ended_at'', JNull),
       (''spans'', JArr [JObj (Span_toJSON minimal_span)]) ]"
  using absent_fields_serialize_as_null [of minimal_span minimal_trace]
  by (simp add: minimal_span_eq minimal_trace_eq Span_toJSON_def Trace_toPayload_def
      or_null_def JInt_def)

section \<open>Ending a span\<close>

text \<open>
  Claim C7 as stated does not hold: \<open>Span.end\<close> subtracts \<open>startedAt\<close> from the reading of
  \<open>Date.now()\<close> and keeps the difference as it is. A span started at 1001 and ended when
  the clock, set back in between, reads 900 has a latency of -101.
\<close>

theorem Span_end_negative_latency_counterexample:
  "Span.startedAt minimal_span = 1001
   \<and> Span.latencyMs
        (Span_end 900
           \<lparr> SpanEndOptions.inputTokens = Some 100, outputTokens = Some 50, cost = None,
             status = span_ok, errorMessage = None, output = None, timeToFirstTokenMs = None \<rparr>
           minimal_span) = Some (- 101)"
  by (simp add: minimal_span_def Span_new_def Span_end_def)

text \<open>
  Claim C7, amended. \<open>Span.end\<close> sets \<open>latencyMs\<close> to the clock reading at the end minus
  \<open>startedAt\<close>, which is non-negative exactly when that reading is not earlier than
  \<open>startedAt\<close>, and stores the caller's metrics as they are: every one of \<open>status\<close>,
  \<open>inputTokens\<close>, \<open>outputTokens\<close>, \<open>cost\<close>, \<open>errorMessage\<close>, \<open>output\<close> and
  \<open>timeToFirstTokenMs\<close> is what the options hold, so a cost that the caller did not give
  stays undefined whatever the token counts are.
\<close>

theorem Span_end_latency_and_supplied_metrics:
  "Span.latencyMs (Span_end now opts s) = Some (now - Span.startedAt s)
   \<and> (0 \<le> now - Span.startedAt s) = (Span.startedAt s \<le> now)
   \<and> Span.status (Span_end now opts s) = Some (SpanEndOptions.status opts)
   \<and> Span.inputTokens (Span_end now opts s) = SpanEndOptions.inputTokens opts
   \<and> Span.outputTokens (Span_end now opts s) = SpanEndOptions.outputTokens opts
   \<and> Span.cost (Span_end now opts s) = SpanEndOptions.cost opts
   \<and> Span.errorMessage (Span_end now opts s) = SpanEndOptions.errorMessage opts
   \<and> Span.output (Span_end now opts s) = SpanEndOptions.output opts
   \<and> Span.timeToFirstTokenMs (Span_end now opts s) = SpanEndOptions.timeToFirstTokenMs opts"
  by (simp add: Span_end_def)

theorem Span_end_latency_and_supplied_metrics_witness:
  "Span.startedAt
     (fst (Trace_startSpan ''s-1'' 1001
        \<lparr> SpanOptions.spanType = generation, name = None, model = Some ''gpt-4o'',
          provider = None, input = None, metadata = None \<rparr>
        (startTrace ''t-1'' 1000
          \<lparr> TraceOptions.name = ''t'', sessionId = None, userId = None, input = None,
            metadata = None, promptName = None, promptVersion = None \<rparr>))) \<le> 1250
   \<and> Span.latencyMs
     (Span_end 1250
        \<lparr> SpanEndOptions.inputTokens = Some 100, outputTokens = Some 50, cost = None,
          status = span_ok, errorMessage = None, output = None, timeToFirstTokenMs = None \<rparr>
        (fst (Trace_startSpan ''s-1'' 1001
           \<lparr> SpanOptions.spanType = generation, name = None, model = Some ''gpt-4o'',
             provider = None, input = None, metadata = None \<rparr>
           (startTrace ''t-1'' 1000
             \<lparr> TraceOptions.name = ''t'', sessionId = None, userId = None, input = None,
               metadata = None, promptName = None, promptVersion = None \<rparr>)))) = Some 249
   \<and> Span.cost
     (Span_end 1250
        \<lparr> SpanEndOptions.inputTokens = Some 100, outputTokens = Some 50, cost = None,
          status = span_ok, errorMessage = None, output = None, timeToFirstTokenMs = None \<rparr>
        (fst (Trace_startSpan ''s-1'' 1001
           \<lparr> SpanOptions.spanType = generation, name = None, model = Some ''gpt-4o'',
             provider = None, input = None, metadata = None \<rparr>
           (startTrace ''t-1'' 1000
             \<lparr> TraceOptions.name = ''t'', sessionId = None, userId = None, input = None,
               metadata = None, promptName = None, promptVersion = None \<rparr>)))) = None"
  using Span_end_latency_and_supplied_metrics
    [of 1250
        "\<lparr> SpanEndOptions.inputTokens = Some 100, outputTokens = Some 50, cost = None,
          status = span_ok, errorMessage = None, output = None, timeToFirstTokenMs = None \<rparr>"
        "fst (Trace_startSpan ''s-1'' 1001
        \<lparr> SpanOptions.spanType = generation, name = None, model = Some ''gpt-4o'',
          provider = None, input = None, metadata = None \<rparr>
        (startTrace ''t-1'' 1000
          \<lparr> TraceOptions.name = ''t'', sessionId = None, userId = None, input = None,
            metadata = None, promptName = None, promptVersion = None \<rparr>))"]
  by (simp add: Trace_startSpan_def Span_new_def Let_def)

section \<open>The span sequence of a trace\<close>

lemma span_key_Span_end: "span_key (Span_end now opts s) = span_key s"
  by (simp add: span_key_def Span_end_def)

lemma map_update_same:
  assumes "i < length xs" and "f (g (xs ! i)) = f (xs ! i)"
  shows "map f (xs[i := g (xs ! i)]) = map f xs"
proof -
  have "map f (xs[i := g (xs ! i)]) = (map f xs)[i := f (xs ! i)]"
    by (simp add: map_update assms(2))
  also have "\<dots> = (map f xs)[i := map f xs ! i]"
    using assms(1) by simp
  also have "\<dots> = map f xs"
    by (rule list_update_id)
  finally show ?thesis .
qed

lemma apply_op_keys:
  "map span_key (Trace.spans (apply_op op t)) = map span_key (Trace.spans t) @ started [op]"
proof (cases op)
  case (OpStartSpan uuid now opts)
  then show ?thesis
    by (simp add: Trace_startSpan_def Let_def span_key_def Span_new_def)
next
  case (OpSpanEnd i now opts)
  then show ?thesis
    by (simp add: Trace_with_span_def map_update_same span_key_Span_end)
next
  case (OpEnd now opts)
  then show ?thesis
    by (simp add: Trace_ended_def Let_def split: option.split)
qed

lemma started_Cons: "started (op # ops) = started [op] @ started ops"
  by (cases op) simp_all

lemma fold_apply_op_keys:
  "map span_key (Trace.spans (fold apply_op ops t)) = map span_key (Trace.spans t) @ started ops"
proof (induction ops arbitrary: t)
  case Nil
  show ?case by simp
next
  case (Cons op ops)
  have "map span_key (Trace.spans (fold apply_op (op # ops) t))
      = map span_key (Trace.spans (fold apply_op ops (apply_op op t)))"
    by simp
  also have "\<dots> = (map span_key (Trace.spans t) @ started [op]) @ started ops"
    by (simp only: Cons.IH apply_op_keys)
  also have "\<dots> = map span_key (Trace.spans t) @ started (op # ops)"
    by (simp only: started_Cons [of op ops] append_assoc)
  finally show ?case .
qed

text \<open>
  Claim C8. The span that \<open>Trace.startSpan\<close> creates has no parent and becomes the last
  element of the trace's spans, after those already there. Over any sequence of
  operations on a trace (\<open>startSpan\<close>, \<open>end\<close>, and \<open>end\<close> on one of its spans), the spans
  that were there stay where they are, and the spans started since follow them in the
  order they were started, each with no parent.
\<close>

theorem Trace_startSpan_appends_root_span:
  "Span.parentSpanId (fst (Trace_startSpan uuid now opts t)) = None
   \<and> Trace.spans (snd (Trace_startSpan uuid now opts t))
       = Trace.spans t @ [fst (Trace_startSpan uuid now opts t)]
   \<and> map span_key (Trace.spans (fold apply_op ops t))
       = map span_key (Trace.spans t) @ started ops"
  by (simp add: Trace_startSpan_def Span_new_def Let_def fold_apply_op_keys)

section \<open>Captured events\<close>

lemma capture_buffer:
  "buffer (client (capture now ev rt)) = buffer (client rt) @ [ingestEvent now ev (client rt)]"
  by (simp add: capture_def Let_def flush_def flushErrors_start_def flushTraces_start_def)

lemma map_of_set_if:
  "map_of (set_if key truthy conv x) k =
     (case x of None \<Rightarrow> None | Some v \<Rightarrow> if truthy v \<and> k = key then Some (conv v) else None)"
  by (simp add: set_if_def split: option.split)

text \<open>
  Claim C10. \<open>capture\<close> appends one ingest event to the buffer, and in that event each
  of \<open>route_or_procedure\<close>, \<open>stack\<close>, \<open>http_status\<close>, \<open>request_id\<close>, \<open>user_id_hash\<close> and
  \<open>metadata\<close> is a key only when the event's value is truthy: an absent value, an empty
  string and the number 0 leave the key out (it is not there as null or as 0). A stack
  that is kept is cut to its first 8192 characters.
\<close>

theorem capture_sets_optional_fields_only_when_truthy:
  "buffer (client (capture now ev rt)) = buffer (client rt) @ [ingestEvent now ev (client rt)]
   \<and> map_of (ingestEvent now ev c) ''route_or_procedure''
       = (case route ev of None \<Rightarrow> None | Some r \<Rightarrow> if r = [] then None else Some (JStr r))
   \<and> map_of (ingestEvent now ev c) ''stack''
       = (case stack ev of None \<Rightarrow> None
          | Some s \<Rightarrow> if s = [] then None else Some (JStr (take 8192 s)))
   \<and> map_of (ingestEvent now ev c) ''http_status''
       = (case httpStatus ev of None \<Rightarrow> None | Some n \<Rightarrow> if n = 0 then None else Some (JNum n))
   \<and> map_of (ingestEvent now ev c) ''request_id''
       = (case requestId ev of None \<Rightarrow> None | Some r \<Rightarrow> if r = [] then None else Some (JStr r))
   \<and> map_of (ingestEvent now ev c) ''user_id_hash''
       = (case userIdHash ev of None \<Rightarrow> None | Some r \<Rightarrow> if r = [] then None else Some (JStr r))
   \<and> map_of (ingestEvent now ev c) ''metadata''
       = (case ErrorEvent.metadata ev of None \<Rightarrow> None | Some m \<Rightarrow> Some (JObj m))"
  by (simp add: capture_buffer ingestEvent_def map_of_append map_of_set_if map_add_def
      truthy_str_def truthy_num_def split: option.split)

theorem capture_sets_optional_fields_only_when_truthy_witness:
  "ingestEvent 1700 (test_event ''test message'') test_client =
     [ (''timestamp'', JNum 1700), (''source'', JStr ''api''), (''environment'', JStr ''test''),
       (''release'', JStr ''1.0.0''), (''error_type'', JStr ''TestError''),
       (''message'', JStr ''test message'') ]
   \<and> map_of (ingestEvent 1700 (test_event ''test message'') test_client) ''http_status'' = None
   \<and> map_of (ingestEvent 1700 (test_event ''test message'') test_client) ''route_or_procedure''
       = None"
  using capture_sets_optional_fields_only_when_truthy
    [of 1700 "test_event ''test message''" test_runtime test_client]
  by (simp add: test_event_def test_client_def ingestEvent_def set_if_def truthy_str_def
      truthy_num_def JInt_def)

section \<open>Traced calls\<close>

lemma Trace_end_eq:
  "Trace_end now opts t c =
     (Trace_ended now opts t,
      c\<lparr>traceBuffer := traceBuffer c @ [Trace_toPayload (Trace_ended now opts t)]\<rparr>)"
  by (simp add: Trace_end_def pushTrace_def Let_def)

lemma Trace_ended_fields:
  "Trace.spans (Trace_ended now opts t) = Trace.spans t"
  "Trace.status (Trace_ended now opts t) = TraceEndOptions.status opts"
  "Trace.endedAt (Trace_ended now opts t) = Some now"
  "Trace.output (Trace_ended now opts t) =
     (case TraceEndOptions.output opts of None \<Rightarrow> Trace.output t | Some out \<Rightarrow> Some out)"
  by (simp_all add: Trace_ended_def Let_def split: option.split)

lemmas call_defs = Trace_startSpan_def startTrace_def Trace_new_def Span_new_def
  Trace_with_span_def Trace_end_eq Trace_ended_fields Span_end_def Let_def

lemma str_or_cases:
  "str_or x d = (case x of None \<Rightarrow> d | Some m \<Rightarrow> if m = [] then d else m)"
  by (simp add: str_or_def truthy_str_def split: option.split)

lemma num_or_0: "num_or x 0 = (case x of None \<Rightarrow> 0 | Some n \<Rightarrow> n)"
  by (simp add: num_or_def truthy_num_def split: option.split)

text \<open>
  Claim C9. \<open>traceGeneration\<close> hands the span it started to the callback. When the
  callback's promise resolves, \<open>traceGeneration\<close> resolves to the same value, the trace
  ends as \<open>completed\<close> with the output that the callback left in \<open>span.output\<close>, and the
  span is as the callback left it. When the callback throws, \<open>traceGeneration\<close> throws
  the same value and the trace ends as \<open>error\<close>; a span that the callback left with a
  status is not touched, a span without one is ended with status \<open>error\<close> and the
  message of the \<open>Error\<close>, or \<open>String(err)\<close> for another thrown value. Either way the
  payload of the ended trace is pushed to the trace buffer.
\<close>

theorem traceGeneration_outcomes:
  "(let r = traceGeneration env opts fn c; tr = fst (snd r); c' = snd (snd r)
    in (case fn (generation_span env opts) of
          (sp, Inr result) \<Rightarrow>
            fst r = Inr result
            \<and> Trace.status tr = completed
            \<and> Trace.output tr = Span.output sp
            \<and> Trace.spans tr = [sp]
        | (sp, Inl err) \<Rightarrow>
            fst r = Inl err
            \<and> Trace.status tr = trace_error
            \<and> (Span.status sp \<noteq> None \<longrightarrow> Trace.spans tr = [sp])
            \<and> (Span.status sp = None \<longrightarrow>
                  map Span.status (Trace.spans tr) = [Some span_error]
                  \<and> map Span.errorMessage (Trace.spans tr)
                      = [if instanceof_Error err then thrown_message err
                         else Some (thrown_String err)]))
       \<and> traceBuffer c' = traceBuffer c @ [Trace_toPayload tr])"
  by (simp add: traceGeneration_def generation_span_def call_defs
      split: prod.split sum.split option.split)

theorem traceGeneration_outcomes_witness:
  "fst (traceGeneration test_env test_gen_opts callback_ok test_client) = Inr ''Hi!''
   \<and> Trace.status (fst (snd (traceGeneration test_env test_gen_opts callback_ok test_client)))
       = completed
   \<and> Trace.output (fst (snd (traceGeneration test_env test_gen_opts callback_ok test_client)))
       = Some ''Hi!''
   \<and> map Span.latencyMs
        (Trace.spans (fst (snd (traceGeneration test_env test_gen_opts callback_ok test_client))))
       = [Some 199]
   \<and> fst (traceGeneration test_env test_gen_opts callback_throws test_client)
       = Inl (ErrorInst ''Error'' ''boom'')
   \<and> Trace.status (fst (snd (traceGeneration test_env test_gen_opts callback_throws test_client)))
       = trace_error
   \<and> map Span.status
        (Trace.spans (fst (snd (traceGeneration test_env test_gen_opts callback_throws test_client))))
       = [Some span_error]
   \<and> map Span.errorMessage
        (Trace.spans (fst (snd (traceGeneration test_env test_gen_opts callback_throws test_client))))
       = [Some ''boom'']
   \<and> fst (traceGeneration test_env test_gen_opts callback_ends_then_throws test_client)
       = Inl (ThrownString ''late'')
   \<and> Trace.spans
        (fst (snd (traceGeneration test_env test_gen_opts callback_ends_then_throws test_client)))
       = [fst (callback_ok (generation_span test_env test_gen_opts))]
   \<and> Span.status (fst (callback_ok (generation_span test_env test_gen_opts))) = Some span_ok"
  using traceGeneration_outcomes [of test_env test_gen_opts callback_ok test_client]
    traceGeneration_outcomes [of test_env test_gen_opts callback_throws test_client]
    traceGeneration_outcomes [of test_env test_gen_opts callback_ends_then_throws test_client]
  by (simp add: Let_def callback_ok_def callback_throws_def callback_ends_then_throws_def
      generation_span_def Span_new_def Span_end_def test_env_def)

text \<open>
  What the two traced calls do in every case. When the original function is called and
  resolves, the call resolves to the same response, the span ends with status \<open>ok\<close> and
  the trace with status \<open>completed\<close>; when it throws or rejects, the call throws the same
  value, the span ends with status \<open>error\<close> and the error's message (\<open>String(err)\<close> when
  the message is absent or empty), and the trace ends with status \<open>error\<close>; either way
  the payload of the ended trace is pushed. \<open>_traceOpenAICall\<close> does not get that far
  when the computation of the span's input throws.
\<close>

lemma traced_calls_outcomes:
  "(let r = traceOpenAICall env prov method fn args c; tr = fst (snd r); c' = snd (snd r)
    in case request_input (stringify env) (Params.messages (first_params args)) of
         Inl e \<Rightarrow> fst r = Inl e \<and> traceBuffer c' = traceBuffer c
       | Inr inp \<Rightarrow>
           (case fn args of
              Inr response \<Rightarrow>
                fst r = Inr response
                \<and> Trace.status tr = completed
                \<and> map Span.status (Trace.spans tr) = [Some span_ok]
            | Inl err \<Rightarrow>
                fst r = Inl err
                \<and> Trace.status tr = trace_error
                \<and> map Span.status (Trace.spans tr) = [Some span_error]
                \<and> map Span.errorMessage (Trace.spans tr)
                    = [Some (case thrown_message err of
                               None \<Rightarrow> thrown_String err
                             | Some m \<Rightarrow> if m = [] then thrown_String err else m)])
           \<and> traceBuffer c' = traceBuffer c @ [Trace_toPayload tr])
   \<and> (let r = traceAnthropicCall env afn args c; tr = fst (snd r); c' = snd (snd r)
      in (case afn args of
            Inr response \<Rightarrow>
              fst r = Inr response
              \<and> Trace.status tr = completed
              \<and> map Span.status (Trace.spans tr) = [Some span_ok]
          | Inl err \<Rightarrow>
              fst r = Inl err
              \<and> Trace.status tr = trace_error
              \<and> map Span.status (Trace.spans tr) = [Some span_error]
              \<and> map Span.errorMessage (Trace.spans tr)
                  = [Some (case thrown_message err of
                             None \<Rightarrow> thrown_String err
                           | Some m \<Rightarrow> if m = [] then thrown_String err else m)])
         \<and> traceBuffer c' = traceBuffer c @ [Trace_toPayload tr])"
  by (simp add: traceOpenAICall_def traceAnthropicCall_def call_defs str_or_cases
      split: sum.split)

text \<open>
  Claim C1, at an input where the code does not do what the claim says: a chat request
  whose \<open>messages\<close> are one message object and no array. The provider function resolves
  on it, but \<open>_traceOpenAICall\<close> calls \<open>params.messages.slice\<close> before its \<open>try\<close>: it
  throws a TypeError of its own, the original function is not called, the trace that was
  started is not ended and nothing is pushed. \<open>_traceAnthropicCall\<close> reads no
  \<open>messages\<close> and always calls the original.
\<close>

theorem traced_call_throws_before_the_original_is_called:
  "provider_ok malformed_args = Inr test_response
   \<and> fst (traceOpenAICall test_env ''openai'' ''chat.completions.create'' provider_ok
            malformed_args test_client)
       = Inl (ErrorInst ''TypeError'' ''params.messages.slice is not a function'')
   \<and> Trace.status (fst (snd (traceOpenAICall test_env ''openai'' ''chat.completions.create''
            provider_ok malformed_args test_client))) = running
   \<and> Trace.spans (fst (snd (traceOpenAICall test_env ''openai'' ''chat.completions.create''
            provider_ok malformed_args test_client))) = []
   \<and> traceBuffer (snd (snd (traceOpenAICall test_env ''openai'' ''chat.completions.create''
            provider_ok malformed_args test_client))) = []"
  by (simp add: traceOpenAICall_def provider_ok_def malformed_args_def first_params_def
      request_input_def test_client_def startTrace_def Trace_new_def Let_def)

section \<open>Cost of an instrumented call\<close>

text \<open>
  The cost that a traced call records when the provider call resolves, by what the
  lookup of the model's rates finds: the rounded \<open>inputTokens * rate.input +
  outputTokens * rate.output\<close> for an entry, with the token counts of the response (0 for
  a count that is missing); the client's own entry comes before the one of
  \<open>MODEL_COSTS\<close>, also right after \<open>setModelCosts\<close> has stored it; 0 when nothing is
  found; NaN when what is found is an inherited member. A traced call leaves the
  client's entries as they are.
\<close>

lemma traceOpenAICall_cost:
  assumes "request_input (stringify env) (Params.messages (first_params args)) = Inr inp"
    and "fn args = Inr response"
  shows "map Span.cost (Trace.spans (fst (snd (traceOpenAICall env prov method fn args c))))
     = [Some (call_cost (round_double env)
               (lookup_rates (round_double env) c
                  (str_or (Params.model (first_params args)) ''unknown''))
               (num_or (Option.bind (Option.bind response OpenAIResponse.usage) prompt_tokens) 0)
               (num_or (Option.bind (Option.bind response OpenAIResponse.usage)
                  completion_tokens) 0))]"
    and "modelCosts (snd (snd (traceOpenAICall env prov method fn args c))) = modelCosts c"
    and "modelCostsProto (snd (snd (traceOpenAICall env prov method fn args c)))
           = modelCostsProto c"
  using assms by (simp_all add: traceOpenAICall_def call_defs)

lemma traceAnthropicCall_cost:
  assumes "fn args = Inr response"
  shows "map Span.cost (Trace.spans (fst (snd (traceAnthropicCall env fn args c))))
     = [Some (call_cost (round_double env)
               (lookup_rates (round_double env) c
                  (str_or (Params.model (first_params args)) ''unknown''))
               (num_or (Option.bind (Option.bind response AnthropicResponse.usage) input_tokens) 0)
               (num_or (Option.bind (Option.bind response AnthropicResponse.usage)
                  output_tokens) 0))]"
    and "modelCosts (snd (snd (traceAnthropicCall env fn args c))) = modelCosts c"
    and "modelCostsProto (snd (snd (traceAnthropicCall env fn args c))) = modelCostsProto c"
  using assms by (simp_all add: traceAnthropicCall_def call_defs)

lemma lookup_rates_override:
  "modelCosts c ''__proto__'' = None \<Longrightarrow> lookup_rates rnd (setModelCosts m ov c) m = Entry ov"
  by (simp add: lookup_rates_def setModelCosts_def modelCosts_get_def)

lemma lookup_rates_own:
  "modelCosts c m = Some r \<Longrightarrow> lookup_rates rnd c m = Entry r"
  by (simp add: lookup_rates_def modelCosts_get_def)

lemma lookup_rates_builtin:
  "modelCosts c m = None \<Longrightarrow> modelCostsProto c = None \<Longrightarrow> MODEL_COSTS rnd m = Some r
     \<Longrightarrow> lookup_rates rnd c m = Entry r"
  by (simp add: lookup_rates_def modelCosts_get_def MODEL_COSTS_get_def Object_prototype_get_def
      MODEL_COSTS_def Object_prototype_members_def split: if_splits)

lemma lookup_rates_unlisted:
  "modelCosts c m = None \<Longrightarrow> modelCostsProto c = None \<Longrightarrow> MODEL_COSTS rnd m = None
     \<Longrightarrow> m \<notin> set Object_prototype_members \<Longrightarrow> lookup_rates rnd c m = Absent"
  by (simp add: lookup_rates_def modelCosts_get_def MODEL_COSTS_get_def Object_prototype_get_def)

lemma lookup_rates_inherited:
  "modelCosts c m = None \<Longrightarrow> modelCostsProto c = None \<Longrightarrow> m \<in> set Object_prototype_members
     \<Longrightarrow> lookup_rates rnd c m = Member"
  by (simp add: lookup_rates_def modelCosts_get_def Object_prototype_get_def)

lemma call_cost_cases:
  "call_cost rnd (Entry r) i out = Num (rnd (rnd (i * rate_input r) + rnd (out * rate_output r)))"
  "call_cost rnd Absent i out = Num 0"
  "call_cost rnd Member i out = NaN"
  by (simp_all add: call_cost_def)

lemma traced_call_cost_by_entry:
  assumes "request_input (stringify env) (Params.messages (first_params args)) = Inr inp"
    and "fn args = Inr response"
    and "lookup_rates (round_double env) c (str_or (Params.model (first_params args)) ''unknown'')
           = Entry r"
  shows "map Span.cost (Trace.spans (fst (snd (traceOpenAICall env prov method fn args c))))
     = [Some (Num (round_double env
         (round_double env
            ((case Option.bind (Option.bind response OpenAIResponse.usage) prompt_tokens of
                None \<Rightarrow> 0 | Some n \<Rightarrow> n) * rate_input r)
          + round_double env
            ((case Option.bind (Option.bind response OpenAIResponse.usage) completion_tokens of
                None \<Rightarrow> 0 | Some n \<Rightarrow> n) * rate_output r))))]"
  by (simp only: traceOpenAICall_cost(1) [of env args inp fn response, OF assms(1) assms(2)]
      assms(3) call_cost_cases num_or_0)

lemma traced_call_cost_example:
  "map Span.cost (Trace.spans (fst (snd (traceOpenAICall test_env ''openai''
      ''chat.completions.create'' provider_ok test_args test_client)))) = [Some (Num (3 / 4000))]"
proof -
  have ri: "request_input (stringify test_env) (Params.messages (first_params test_args))
              = Inr (Some ''[...]'')"
    by (simp add: test_args_def first_params_def request_input_def test_env_def)
  have p: "provider_ok test_args = Inr test_response"
    by (simp add: provider_ok_def)
  have l: "lookup_rates (round_double test_env) test_client
             (str_or (Params.model (first_params test_args)) ''unknown'')
           = Entry \<lparr>rate_input = 5 / 2000000, rate_output = 10 / 1000000\<rparr>"
    by (simp add: test_args_def first_params_def str_or_def truthy_str_def lookup_rates_def
        modelCosts_get_def MODEL_COSTS_get_def MODEL_COSTS_def Object_prototype_get_def
        Object_prototype_members_def test_client_def test_env_def per_million_def)
  note e = traced_call_cost_by_entry
    [of test_env test_args "Some ''[...]''" provider_ok test_response test_client
        "\<lparr>rate_input = 5 / 2000000, rate_output = 10 / 1000000\<rparr>", OF ri p l]
  show ?thesis
    by (subst e) (simp add: test_response_def test_env_def)
qed

text \<open>
  Claim C5, at an input where the code does not do what the claim says: a request for a
  model called \<open>toString\<close>, to a client with no override. The name is in neither table,
  but \<open>this._modelCosts["toString"]\<close> finds the function that every object inherits, so
  \<open>rates\<close> is truthy and has no \<open>input\<close> and \<open>output\<close>: the recorded cost is NaN, with
  \<open>_traceOpenAICall\<close> and with \<open>_traceAnthropicCall\<close>, where the claim says 0 for a model
  that is not known. For a name that no object inherits the cost is 0.
\<close>

theorem cost_is_NaN_for_a_model_named_like_an_inherited_member:
  "provider_ok toString_args = Inr test_response
   \<and> map Span.cost (Trace.spans (fst (snd (traceOpenAICall test_env ''openai''
        ''chat.completions.create'' provider_ok toString_args test_client)))) = [Some NaN]
   \<and> anthropic_ok toString_args = Inr test_anthropic_response
   \<and> map Span.cost (Trace.spans (fst (snd (traceAnthropicCall test_env anthropic_ok
        toString_args test_client)))) = [Some NaN]
   \<and> map Span.cost (Trace.spans (fst (snd (traceOpenAICall test_env ''openai''
        ''chat.completions.create'' provider_ok unlisted_args test_client)))) = [Some (Num 0)]"
proof -
  have ri: "request_input (stringify test_env) (Params.messages (first_params toString_args))
              = Inr None"
    by (simp add: toString_args_def first_params_def request_input_def)
  have ru: "request_input (stringify test_env) (Params.messages (first_params unlisted_args))
              = Inr None"
    by (simp add: unlisted_args_def first_params_def request_input_def)
  have p: "provider_ok toString_args = Inr test_response"
    "provider_ok unlisted_args = Inr test_response"
    "anthropic_ok toString_args = Inr test_anthropic_response"
    by (simp_all add: provider_ok_def anthropic_ok_def)
  have m: "str_or (Params.model (first_params toString_args)) ''unknown'' = ''toString''"
    "str_or (Params.model (first_params unlisted_args)) ''unknown'' = ''my-model''"
    by (simp_all add: toString_args_def unlisted_args_def first_params_def str_or_def
        truthy_str_def)
  have l1: "lookup_rates rnd test_client ''toString'' = Member" for rnd
    by (rule lookup_rates_inherited)
       (simp_all add: test_client_def Object_prototype_members_def)
  have l2: "lookup_rates rnd test_client ''my-model'' = Absent" for rnd
    by (rule lookup_rates_unlisted)
       (simp_all add: test_client_def Object_prototype_members_def MODEL_COSTS_def)
  note c1 = traceOpenAICall_cost(1)
    [of test_env toString_args None provider_ok test_response, OF ri p(1)]
  note c2 = traceOpenAICall_cost(1)
    [of test_env unlisted_args None provider_ok test_response, OF ru p(2)]
  note c3 = traceAnthropicCall_cost(1)
    [of anthropic_ok toString_args test_anthropic_response, OF p(3)]
  show ?thesis
    by (simp add: c1 c2 c3 p m l1 l2 call_cost_cases)
qed

section \<open>Reading through a wrapped client\<close>

lemma is_object_not_nullish: "is_object v \<Longrightarrow> v \<noteq> JUndefined \<and> v \<noteq> JNull"
  by (cases v) simp_all

lemma proxy_get_plain:
  "\<not> intercepts h target k \<Longrightarrow> proxy_get h target k = Inr (Plain (reflect_get target k))"
  by (cases h) (auto simp: Let_def)

text \<open>
  Claim C3 as stated does not hold. \<open>chat\<close> is a path other than
  \<open>chat.completions.create\<close>, but the wrapper does not yield the client's \<open>chat\<close> for it:
  it yields a new proxy around it. And a method that is read through the wrapper is
  the client's function, but the call gets the wrapper, not the client, as its \<open>this\<close>.
\<close>

theorem wrapper_changes_chat_and_receiver_counterexample:
  "view_get (Plain extended_client) ''chat'' = Inr (Plain (reflect_get extended_client ''chat''))
   \<and> view_get (Proxied (OpenAI_client ''openai'') extended_client) ''chat''
       = Inr (Proxied (OpenAI_chat ''openai'') (reflect_get extended_client ''chat''))
   \<and> view_get (Proxied (OpenAI_client ''openai'') extended_client) ''chat''
       \<noteq> view_get (Plain extended_client) ''chat''
   \<and> call_member (Plain extended_client) ''someMethod'' []
       = Inr (Invoke (JFun 1) (Plain extended_client) [])
   \<and> call_member (Proxied (OpenAI_client ''openai'') extended_client) ''someMethod'' []
       = Inr (Invoke (JFun 1) (Proxied (OpenAI_client ''openai'') extended_client) [])
   \<and> call_member (Proxied (OpenAI_client ''openai'') extended_client) ''someMethod'' []
       \<noteq> call_member (Plain extended_client) ''someMethod'' []"
  by (simp add: extended_client_def new_Proxy_def call_member_def Let_def)

text \<open>
  Claim C3, amended. Take any proxy that the wrappers build, at any depth (around the
  client, around \<open>chat\<close>, \<open>chat.completions\<close>, \<open>embeddings\<close> or \<open>messages\<close>), and any
  property that its handler does not intercept: every name but \<open>chat\<close> and \<open>embeddings\<close>
  (or \<open>messages\<close>) on the client, every name but \<open>completions\<close> on \<open>chat\<close>, and every name
  on the innermost objects but a \<open>create\<close> that is a function. Reading that property
  through the proxy yields the value of the target's data property, as the target is when
  the property is read (with whatever was added to it since it was wrapped), and reading
  any chain of properties that starts with it yields what the same chain yields on the
  target. Calling that member through the proxy calls the function that a call on the
  target calls, with the same arguments, and with the proxy in the place of the target
  as \<open>this\<close>; where the member is no function both calls throw a TypeError.
\<close>

theorem wrapper_reads_through:
  assumes "new_Proxy h target = Inr w" and "\<not> intercepts h target k"
  shows "view_get w k = Inr (Plain (reflect_get target k))
       \<and> read_path w (k # ks) = read_path (Plain target) (k # ks)
       \<and> call_member w k args
           = (if is_function (reflect_get target k)
              then Inr (Invoke (reflect_get target k) w args) else Inl TypeError)
       \<and> call_member (Plain target) k args
           = (if is_function (reflect_get target k)
              then Inr (Invoke (reflect_get target k) (Plain target) args) else Inl TypeError)"
proof -
  from assms(1) have obj: "is_object target" and w: "w = Proxied h target"
    by (auto simp: new_Proxy_def split: if_splits)
  have r: "view_get w k = Inr (Plain (reflect_get target k))"
    using w assms(2) by (simp add: proxy_get_plain)
  have p: "view_get (Plain target) k = Inr (Plain (reflect_get target k))"
    using is_object_not_nullish [OF obj] by simp
  have path: "read_path w (k # ks) = read_path (Plain target) (k # ks)"
    by (simp only: read_path.simps r p)
  have cw: "call_member w k args
          = (if is_function (reflect_get target k)
             then Inr (Invoke (reflect_get target k) w args) else Inl TypeError)"
    by (simp add: call_member_def r)
  have cp: "call_member (Plain target) k args
          = (if is_function (reflect_get target k)
             then Inr (Invoke (reflect_get target k) (Plain target) args) else Inl TypeError)"
    by (simp only: call_member_def p sum.case view.case)
  from r path cw cp show ?thesis by blast
qed

theorem wrapper_reads_through_witness:
  "new_Proxy (OpenAI_client ''openai'') extended_client
     = Inr (Proxied (OpenAI_client ''openai'') extended_client)
   \<and> \<not> intercepts (OpenAI_client ''openai'') extended_client ''someMethod''
   \<and> \<not> intercepts (OpenAI_client ''openai'') extended_client ''_options''
   \<and> view_get (Proxied (OpenAI_client ''openai'') extended_client) ''someMethod''
       = Inr (Plain (JFun 1))
   \<and> call_member (Proxied (OpenAI_client ''openai'') extended_client) ''someMethod'' [JNum 1]
       = Inr (Invoke (JFun 1) (Proxied (OpenAI_client ''openai'') extended_client) [JNum 1])
   \<and> read_path (Proxied (OpenAI_client ''openai'') extended_client) [''_options'', ''timeout'']
       = Inr (Plain (JNum 600))
   \<and> read_path (Plain extended_client) [''_options'', ''timeout''] = Inr (Plain (JNum 600))"
proof -
  have p: "new_Proxy (OpenAI_client ''openai'') extended_client
             = Inr (Proxied (OpenAI_client ''openai'') extended_client)"
    by (simp add: new_Proxy_def extended_client_def)
  have n1: "\<not> intercepts (OpenAI_client ''openai'') extended_client ''someMethod''"
    by simp
  have n2: "\<not> intercepts (OpenAI_client ''openai'') extended_client ''_options''"
    by simp
  show ?thesis
    using wrapper_reads_through [OF p n1, of "[]" "[JNum 1]"]
      wrapper_reads_through [OF p n2, of "[''timeout'']" "[]"]
    by (simp add: new_Proxy_def extended_client_def)
qed

text \<open>
  Claim C2, at inputs where the code does not do what the claim says. A client without
  \<open>embeddings\<close> (the plain object of the SDK's tests), without \<open>chat\<close>, with a \<open>chat\<close>
  that has no \<open>completions\<close>, or without \<open>messages\<close> is wrapped without an exception; but
  reading the missing member through the wrapper makes the handler call \<open>new Proxy\<close> on
  undefined, which throws a TypeError, where the same read on the original yields
  undefined. Only a missing \<open>create\<close> is guarded (\<open>typeof ... === "function"\<close>).
\<close>

theorem wrapper_throws_on_missing_member:
  "wrapOpenAI (\<lambda>v. None) plain_openai = Inr (Proxied (OpenAI_client ''unknown'') plain_openai)
   \<and> view_get (Plain plain_openai) ''embeddings'' = Inr (Plain JUndefined)
   \<and> view_get (Proxied (OpenAI_client ''unknown'') plain_openai) ''embeddings'' = Inl TypeError
   \<and> wrapOpenAI (\<lambda>v. None) (JObj []) = Inr (Proxied (OpenAI_client ''unknown'') (JObj []))
   \<and> view_get (Proxied (OpenAI_client ''unknown'') (JObj [])) ''chat'' = Inl TypeError
   \<and> read_path (Proxied (OpenAI_client ''unknown'') (JObj [(''chat'', JObj [])]))
        [''chat'', ''completions''] = Inl TypeError
   \<and> wrapAnthropic (JObj []) = Inr (Proxied Anthropic_client (JObj []))
   \<and> view_get (Plain (JObj [])) ''messages'' = Inr (Plain JUndefined)
   \<and> view_get (Proxied Anthropic_client (JObj [])) ''messages'' = Inl TypeError"
  by (simp add: wrapOpenAI_def wrapAnthropic_def new_Proxy_def detectProvider_def opt_get_def
      provider_text_def plain_openai_def Let_def)

section \<open>What a flush drains\<close>

lemma ingestEvent_config:
  "event_config c = event_config c' \<Longrightarrow> ingestEvent now ev c = ingestEvent now ev c'"
  by (simp add: ingestEvent_def event_config_def)

lemma enqueued_errors_config:
  assumes "event_config c = event_config c'"
  shows "enqueued_errors evs c = enqueued_errors evs c'"
proof (induction evs)
  case Nil
  show ?case by simp
next
  case (Cons e evs)
  show ?case
  proof (cases e)
    case (Capture now ev)
    have "ingestEvent now ev c = ingestEvent now ev c'"
      using assms by (rule ingestEvent_config)
    with Cons Capture show ?thesis by simp
  qed (use Cons in simp_all)
qed

lemma flush_client: "client (flush rt) = client rt"
  by (simp add: flush_def flushErrors_start_def flushTraces_start_def)

lemma flush_batches:
  "errorBatches (flush rt) = errorBatches rt" "traceBatches (flush rt) = traceBatches rt"
  by (simp_all add: flush_def flushErrors_start_def flushTraces_start_def)

lemma step_config: "event_config (client (step e rt)) = event_config (client rt)"
  by (cases e)
     (simp_all add: event_config_def capture_def Let_def flush_client Trace_end_def
        pushTrace_def flushErrors_resume_def flushTraces_resume_def split: nat.split)

lemma step_errors:
  "concat (errorBatches (step e rt)) @ buffer (client (step e rt))
     = concat (errorBatches rt) @ buffer (client rt) @ enqueued_errors [e] (client rt)"
  by (cases e)
     (simp_all add: capture_def Let_def flush_client flush_batches Trace_end_def
        pushTrace_def flushErrors_resume_def flushTraces_resume_def split: nat.split)

lemma step_traces:
  "concat (traceBatches (step e rt)) @ traceBuffer (client (step e rt))
     = concat (traceBatches rt) @ traceBuffer (client rt) @ enqueued_traces [e]"
  by (cases e)
     (simp_all add: capture_def Let_def flush_client flush_batches Trace_end_def
        pushTrace_def flushErrors_resume_def flushTraces_resume_def split: nat.split)

lemma enqueued_errors_Cons:
  "enqueued_errors (e # evs) c = enqueued_errors [e] c @ enqueued_errors evs c"
  by (cases e) simp_all

lemma enqueued_traces_Cons:
  "enqueued_traces (e # evs) = enqueued_traces [e] @ enqueued_traces evs"
  by (cases e) simp_all

lemma run_Cons: "run (e # evs) rt = run evs (step e rt)"
  by (simp add: run_def)

lemma run_errors:
  "concat (errorBatches (run evs rt)) @ buffer (client (run evs rt))
     = concat (errorBatches rt) @ buffer (client rt) @ enqueued_errors evs (client rt)"
proof (induction evs arbitrary: rt)
  case Nil
  show ?case by (simp add: run_def)
next
  case (Cons e evs)
  have cfg: "enqueued_errors evs (client (step e rt)) = enqueued_errors evs (client rt)"
    by (rule enqueued_errors_config) (rule step_config)
  have "concat (errorBatches (run (e # evs) rt)) @ buffer (client (run (e # evs) rt))
      = concat (errorBatches (run evs (step e rt))) @ buffer (client (run evs (step e rt)))"
    by (simp only: run_Cons)
  also have "\<dots> = (concat (errorBatches (step e rt)) @ buffer (client (step e rt)))
                   @ enqueued_errors evs (client (step e rt))"
    by (simp only: Cons.IH append_assoc)
  also have "\<dots> = (concat (errorBatches rt) @ buffer (client rt) @ enqueued_errors [e] (client rt))
                   @ enqueued_errors evs (client rt)"
    by (simp only: step_errors cfg)
  also have "\<dots> = concat (errorBatches rt) @ buffer (client rt) @ enqueued_errors (e # evs) (client rt)"
    by (simp only: enqueued_errors_Cons [of e evs] append_assoc)
  finally show ?case .
qed

lemma run_traces:
  "concat (traceBatches (run evs rt)) @ traceBuffer (client (run evs rt))
     = concat (traceBatches rt) @ traceBuffer (client rt) @ enqueued_traces evs"
proof (induction evs arbitrary: rt)
  case Nil
  show ?case by (simp add: run_def)
next
  case (Cons e evs)
  have "concat (traceBatches (run (e # evs) rt)) @ traceBuffer (client (run (e # evs) rt))
      = concat (traceBatches (run evs (step e rt))) @ traceBuffer (client (run evs (step e rt)))"
    by (simp only: run_Cons)
  also have "\<dots> = (concat (traceBatches (step e rt)) @ traceBuffer (client (step e rt)))
                   @ enqueued_traces evs"
    by (simp only: Cons.IH append_assoc)
  also have "\<dots> = (concat (traceBatches rt) @ traceBuffer (client rt) @ enqueued_traces [e])
                   @ enqueued_traces evs"
    by (simp only: step_traces)
  also have "\<dots> = concat (traceBatches rt) @ traceBuffer (client rt) @ enqueued_traces (e # evs)"
    by (simp only: enqueued_traces_Cons [of e evs] append_assoc)
  finally show ?case .
qed

lemma resume_errors:
  "errorsAwaitingKey rt = Suc n \<Longrightarrow>
     errorBatches (flushErrors_resume rt) = errorBatches rt @ [buffer (client rt)]
     \<and> buffer (client (flushErrors_resume rt)) = []
     \<and> errorsAwaitingKey (flushErrors_resume rt) = n"
  by (simp add: flushErrors_resume_def Let_def)

lemma resume_traces:
  "tracesAwaitingKey rt = Suc n \<Longrightarrow>
     traceBatches (flushTraces_resume rt) = traceBatches rt @ [traceBuffer (client rt)]
     \<and> traceBuffer (client (flushTraces_resume rt)) = []
     \<and> tracesAwaitingKey (flushTraces_resume rt) = n"
  by (simp add: flushTraces_resume_def Let_def)

lemma mid_flush_eq:
  "mid_flush =
     \<lparr> client = test_client
         \<lparr> buffer := [ingestEvent 1 (test_event ''a'') test_client],
           traceBuffer :=
             [Trace_toPayload
                (Trace_ended 5 \<lparr>TraceEndOptions.status = completed, output = None\<rparr>
                   minimal_trace)] \<rparr>,
       errorsAwaitingKey = Suc 0, tracesAwaitingKey = Suc 0,
       errorBatches = [], traceBatches = [] \<rparr>"
  by (simp add: mid_flush_def run_def capture_def flush_def flushErrors_start_def
      flushTraces_start_def Trace_end_def pushTrace_def Let_def test_runtime_def test_client_def)

text \<open>
  Claim C4 as stated does not hold: \<open>_flushErrors\<close> awaits the key before it empties the
  buffer. Here \<open>flush\<close> is called when the buffer holds one event; a second event is
  captured while the flush waits for the key; the flush then takes both, so its batch is
  not the buffer as it was when the flush started.
\<close>

theorem flush_drains_items_present_at_start_counterexample:
  "buffer (client mid_flush) = [ingestEvent 1 (test_event ''a'') test_client]
   \<and> errorBatches (run [Capture 2 (test_event ''b''), ResumeFlushErrors] mid_flush)
       = [[ingestEvent 1 (test_event ''a'') test_client,
           ingestEvent 2 (test_event ''b'') test_client]]
   \<and> errorBatches (run [Capture 2 (test_event ''b''), ResumeFlushErrors] mid_flush)
       \<noteq> [buffer (client mid_flush)]"
  by (simp add: mid_flush_eq run_def capture_def flushErrors_resume_def Let_def
      test_client_def ingestEvent_def)

text \<open>
  Claim C4, amended. A flush empties its buffer in one step, when it goes on after
  \<open>await this.keyReady\<close>: its batch is exactly the buffer at that step, and the buffer is
  empty after it. Over every schedule of captures, ended traces, calls of \<open>flush\<close> and
  resumptions, the batches taken so far followed by the buffer are the items enqueued so
  far, each once and in order: no item is in two batches.
\<close>

theorem flush_drains_buffer_at_splice:
  "(errorsAwaitingKey rt = Suc n \<longrightarrow>
      errorBatches (flushErrors_resume rt) = errorBatches rt @ [buffer (client rt)]
      \<and> buffer (client (flushErrors_resume rt)) = [])
   \<and> (tracesAwaitingKey rt = Suc n' \<longrightarrow>
        traceBatches (flushTraces_resume rt) = traceBatches rt @ [traceBuffer (client rt)]
        \<and> traceBuffer (client (flushTraces_resume rt)) = [])
   \<and> concat (errorBatches (run evs rt)) @ buffer (client (run evs rt))
       = concat (errorBatches rt) @ buffer (client rt) @ enqueued_errors evs (client rt)
   \<and> concat (traceBatches (run evs rt)) @ traceBuffer (client (run evs rt))
       = concat (traceBatches rt) @ traceBuffer (client rt) @ enqueued_traces evs"
  using resume_errors [of rt n] resume_traces [of rt n'] run_errors [of evs rt]
    run_traces [of evs rt]
  by blast

theorem flush_drains_buffer_at_splice_witness:
  "errorsAwaitingKey mid_flush = Suc 0
   \<and> tracesAwaitingKey mid_flush = Suc 0
   \<and> errorBatches (flushErrors_resume mid_flush) = [[ingestEvent 1 (test_event ''a'') test_client]]
   \<and> buffer (client (flushErrors_resume mid_flush)) = []
   \<and> traceBatches (flushTraces_resume mid_flush)
       = [[Trace_toPayload
             (Trace_ended 5 \<lparr>TraceEndOptions.status = completed, output = None\<rparr> minimal_trace)]]
   \<and> concat (errorBatches
         (run [Capture 2 (test_event ''b''), ResumeFlushErrors, Flush, ResumeFlushErrors,
               ResumeFlushErrors] mid_flush))
       = [ingestEvent 1 (test_event ''a'') test_client,
          ingestEvent 2 (test_event ''b'') test_client]"
  using flush_drains_buffer_at_splice
    [of mid_flush 0 0 "[Capture 2 (test_event ''b''), ResumeFlushErrors, Flush,
        ResumeFlushErrors, ResumeFlushErrors]"]
  by (simp add: mid_flush_eq run_def capture_def flush_def flushErrors_start_def
      flushTraces_start_def flushErrors_resume_def Let_def test_client_def ingestEvent_def)

end
